theory Spec2Isabelle
  imports Main "HOL-Library.Sublist"
begin

section \<open>Python values used by the Ozon parser\<close>

text \<open>
  Exceptions that the modelled code can meet. \<open>PlaywrightTimeoutError\<close> is the one the
  source catches by name; \<open>EngineError\<close> stands for every other \<open>Exception\<close> a
  browser call raises (its text is the message); the remaining three are the built-in
  errors of \<open>random.choice\<close>, a dict lookup and \<open>int\<close>/\<open>random.randint\<close>, and \<open>TypeError\<close>
  is what \<open>in\<close> raises on \<open>None\<close>.
\<close>

datatype exn =
  PlaywrightTimeoutError | EngineError string | IndexError | KeyError | ValueError | TypeError

text \<open>Sequencing of computations that may raise: the first exception wins.\<close>

definition bind_exn :: "exn + 'a \<Rightarrow> ('a \<Rightarrow> exn + 'b) \<Rightarrow> exn + 'b" where
  "bind_exn m f = (case m of Inl e \<Rightarrow> Inl e | Inr x \<Rightarrow> f x)"

text \<open>
  The same for calls on an outside object with a state \<open>'s\<close>: a call returns its
  value or the exception it raised, and the state it left; an exception ends the
  sequence there.
\<close>

definition then_do ::
    "(exn + 'a) \<times> 's \<Rightarrow> ('a \<Rightarrow> 's \<Rightarrow> (exn + 'b) \<times> 's) \<Rightarrow> (exn + 'b) \<times> 's" where
  "then_do m f = (case m of (Inl e, s) \<Rightarrow> (Inl e, s) | (Inr x, s) \<Rightarrow> f x s)"

text \<open>
  Python's \<open>needle in haystack\<close> on strings: \<open>needle\<close> occurs as a contiguous block.
  The test walks the haystack and compares a prefix at every position.
\<close>

fun contains :: "'a list \<Rightarrow> 'a list \<Rightarrow> bool" where
  "contains needle [] = (needle = [])"
| "contains needle (c # cs) = (prefix needle (c # cs) \<or> contains needle cs)"

section \<open>The random module\<close>

text \<open>
  The module-level generator of \<open>random\<close> is a hidden global state. It is modelled as a
  state \<open>'g\<close> and a raw draw \<open>gen\<close> that returns a natural number and the next state; both
  are parameters, so every theorem holds for every generator and every state.
  \<open>random.choice\<close> and \<open>random.randint\<close> are both built on \<open>_randbelow n\<close>, which
  returns some \<open>k\<close> with \<open>0 \<le> k < n\<close>: here the raw draw reduced modulo \<open>n\<close>. Any sequence
  of in-range answers of \<open>_randbelow\<close> is the behaviour of some \<open>gen\<close> (a generator that
  replays that sequence), so no behaviour of the source is left out.
\<close>

type_synonym 'g rng = "'g \<Rightarrow> nat \<times> 'g"

definition randbelow :: "'g rng \<Rightarrow> nat \<Rightarrow> 'g \<Rightarrow> nat \<times> 'g" where
  "randbelow gen n g = (case gen g of (r, g') \<Rightarrow> (r mod n, g'))"

text \<open>\<open>random.choice(seq)\<close>: \<open>seq[_randbelow(len(seq))]\<close>, IndexError on an empty sequence.\<close>

definition choice :: "'g rng \<Rightarrow> 'a list \<Rightarrow> 'g \<Rightarrow> exn + ('a \<times> 'g)" where
  "choice gen seq g =
     (case seq of
        [] \<Rightarrow> Inl IndexError
      | _ # _ \<Rightarrow> (case randbelow gen (length seq) g of (k, g') \<Rightarrow> Inr (seq ! k, g')))"

text \<open>\<open>random.randint(a, b)\<close>: \<open>a + _randbelow(b - a + 1)\<close>, ValueError on an empty range.\<close>

definition randint :: "'g rng \<Rightarrow> int \<Rightarrow> int \<Rightarrow> 'g \<Rightarrow> exn + (int \<times> 'g)" where
  "randint gen a b g =
     (if b < a then Inl ValueError
      else (case randbelow gen (nat (b - a + 1)) g of (k, g') \<Rightarrow> Inr (a + int k, g')))"

text \<open>
  A generator that replays a given list of raw draws (and answers 0 once the list is
  used up). It serves to run the model on concrete draws.
\<close>

fun replay :: "nat list rng" where
  "replay [] = (0, [])"
| "replay (r # rs) = (r, rs)"

section \<open>Fingerprint synthesis\<close>

text \<open>
  The fingerprint is a nested dict in the source: \<open>screen\<close>, \<open>viewport\<close> and
  \<open>navigator\<close> are its sub-dicts. The viewport's keys \<open>width\<close> and \<open>height\<close> are
  named \<open>vp_width\<close> and \<open>vp_height\<close> here, since the screen has keys of the same name.
  The strings of a fingerprint are compared and searched, never measured, so they are
  HOL strings; the timezone is whatever string the lookup service returned.
\<close>

record screen =
  width :: int
  height :: int
  avail_width :: int
  avail_height :: int
  color_depth :: int
  pixel_depth :: int

record viewport =
  vp_width :: int
  vp_height :: int

record navigator =
  hardware_concurrency :: int
  device_memory :: int
  max_touch_points :: int
  platform :: string
  language :: string
  languages :: "string list"
  vendor :: string

record fingerprint =
  user_agent :: string
  screen :: screen
  viewport :: viewport
  navigator :: navigator
  timezone :: string
  "locale" :: string

definition USER_AGENTS :: "string list" where
  "USER_AGENTS =
    [''Mozilla/5.0 (Windows NT 10.0; Win64; x64) AppleWebKit/537.36 (KHTML, like Gecko) Chrome/120.0.0.0 Safari/537.36'',
     ''Mozilla/5.0 (Windows NT 10.0; Win64; x64) AppleWebKit/537.36 (KHTML, like Gecko) Chrome/119.0.0.0 Safari/537.36'',
     ''Mozilla/5.0 (Windows NT 10.0; Win64; x64) AppleWebKit/537.36 (KHTML, like Gecko) Chrome/118.0.0.0 Safari/537.36'',
     ''Mozilla/5.0 (Macintosh; Intel Mac OS X 10_15_7) AppleWebKit/537.36 (KHTML, like Gecko) Chrome/120.0.0.0 Safari/537.36'',
     ''Mozilla/5.0 (Macintosh; Intel Mac OS X 10_15_7) AppleWebKit/537.36 (KHTML, like Gecko) Chrome/119.0.0.0 Safari/537.36'',
     ''Mozilla/5.0 (Windows NT 10.0; Win64; x64) AppleWebKit/537.36 (KHTML, like Gecko) Chrome/118.0.0.0 Safari/537.36 OPR/104.0.0.0'',
     ''Mozilla/5.0 (Windows NT 10.0; Win64; x64) AppleWebKit/537.36 (KHTML, like Gecko) Chrome/119.0.0.0 Safari/537.36 OPR/105.0.0.0'',
     ''Mozilla/5.0 (Windows NT 10.0; Win64; x64) AppleWebKit/537.36 (KHTML, like Gecko) Chrome/120.0.0.0 Safari/537.36 Edg/120.0.0.0'',
     ''Mozilla/5.0 (Macintosh; Intel Mac OS X 10_15_7) AppleWebKit/537.36 (KHTML, like Gecko) Chrome/120.0.0.0 Safari/537.36 Edg/120.0.0.0'',
     ''Mozilla/5.0 (Windows NT 10.0; Win64; x64) AppleWebKit/537.36 (KHTML, like Gecko) Chrome/120.0.0.0 Safari/537.36 Brave/120.0.0.0'',
     ''Mozilla/5.0 (Windows NT 10.0; Win64; x64) AppleWebKit/537.36 (KHTML, like Gecko) Chrome/120.0.0.0 Safari/537.36 YaBrowser/24.1.0.0'']"

text \<open>
  \<open>detect_timezone_by_ip\<close> asks a web service. What the network does is the input
  \<open>ip_reply\<close>: the request (or the import of the client library, or the decoding of the
  body) raised, or a reply came with a status code and, in its JSON object, a string
  under the key \<open>timezone\<close> or no such key. Every exception is caught inside the
  function, and every path but a 200 reply with the key returns the default.
  The service documents a string under that key. A reply of status 200 that holds
  \<open>null\<close> there is not a case of \<open>ip_reply\<close>: it is the case \<open>Timezone_null\<close> of
  \<open>lookup\<close> below, where no fingerprint is made.
\<close>

datatype ip_reply = Request_raised | Reply int "string option"

fun detect_timezone_by_ip :: "ip_reply \<Rightarrow> string" where
  "detect_timezone_by_ip Request_raised = ''Europe/Moscow''"
| "detect_timezone_by_ip (Reply status_code tz) =
     (if status_code = 200
      then (case tz of None \<Rightarrow> ''Europe/Moscow'' | Some t \<Rightarrow> t)
      else ''Europe/Moscow'')"

definition is_russian_tz :: "string \<Rightarrow> bool" where
  "is_russian_tz tz \<longleftrightarrow>
     contains ''Moscow'' tz \<or> contains ''Kaliningrad'' tz \<or>
     contains ''Samara'' tz \<or> contains ''Yekaterinburg'' tz"

definition platforms :: "bool \<Rightarrow> string list" where
  "platforms russian =
     (if russian then [''Win32'', ''Win32'', ''Win32'', ''MacIntel'', ''Linux x86_64'']
      else [''Win32'', ''MacIntel'', ''Linux x86_64''])"

definition resolutions :: "(int \<times> int) list" where
  "resolutions =
     [(1920, 1080), (1920, 1080), (1920, 1080), (1920, 1080), (2560, 1440),
      (1366, 768), (1536, 864), (1440, 900), (1680, 1050)]"

definition core_counts :: "int list" where
  "core_counts = [4, 6, 8, 8, 12, 16]"

definition memory_map :: "int \<rightharpoonup> int" where
  "memory_map = map_of [(4, 8), (6, 16), (8, 16), (12, 32), (16, 32)]"

text \<open>
  The first statement of \<open>generate_random_fingerprint\<close>: the timezone before any
  correction, from the lookup or the default.
\<close>

definition initial_timezone :: "bool \<Rightarrow> ip_reply \<Rightarrow> string" where
  "initial_timezone detect_timezone reply =
     (if detect_timezone then detect_timezone_by_ip reply else ''Europe/Moscow'')"

text \<open>
  The draws happen in the order of the source: cores, resolution, the two offsets of the
  available area, the platform; then, while the dict literal is evaluated, the user
  agent and, for a platform other than Win32, the touch points. \<open>memory_map[cores]\<close> is
  a dict lookup, which raises KeyError on a missing key. The \<open>elif\<close> branch for Win32
  assigns the timezone to itself and is left out.
\<close>

definition generate_random_fingerprint ::
    "'g rng \<Rightarrow> bool \<Rightarrow> ip_reply \<Rightarrow> 'g \<Rightarrow> exn + (fingerprint \<times> 'g)" where
  "generate_random_fingerprint gen detect_timezone reply g =
     (let tz = initial_timezone detect_timezone reply;
          russian = is_russian_tz tz
      in
      bind_exn (choice gen core_counts g) (\<lambda>(cores, g1).
      bind_exn (choice gen resolutions g1) (\<lambda>((w, h), g2).
      bind_exn (randint gen 0 100 g2) (\<lambda>(dw, g3).
      bind_exn (randint gen 40 150 g3) (\<lambda>(dh, g4).
      bind_exn (choice gen (platforms russian) g4) (\<lambda>(plat, g5).
      let tz' = (if plat = ''MacIntel'' \<and> russian then ''Europe/Moscow'' else tz) in
      bind_exn (choice gen USER_AGENTS g5) (\<lambda>(ua, g6).
      bind_exn (case memory_map cores of None \<Rightarrow> Inl KeyError | Some m \<Rightarrow> Inr m) (\<lambda>mem.
      bind_exn (if plat = ''Win32'' then Inr (0, g6) else choice gen [0, 5] g6) (\<lambda>(touch, g7).
      Inr (\<lparr>user_agent = ua,
             screen = \<lparr>width = w, height = h, avail_width = w - dw, avail_height = h - dh,
                       color_depth = 24, pixel_depth = 24\<rparr>,
             viewport = \<lparr>vp_width = w, vp_height = h - 40\<rparr>,
             navigator = \<lparr>hardware_concurrency = cores, device_memory = mem,
                          max_touch_points = touch, platform = plat, language = ''ru-RU'',
                          languages = [''ru-RU'', ''ru'', ''en-US'', ''en''],
                          vendor = ''Google Inc.''\<rparr>,
             timezone = tz', locale = ''ru-RU''\<rparr>, g7))))))))))"

text \<open>
  All that the lookup can hand to \<open>generate_random_fingerprint\<close>: a reply as above, or
  a reply of status 200 with \<open>null\<close> under the key \<open>timezone\<close>. In the second case
  \<open>detect_timezone_by_ip\<close> returns \<open>None\<close>, and the first substring test of line 94
  raises TypeError before anything is drawn. With \<open>detect_timezone = False\<close> the service
  is not asked.
\<close>

datatype lookup = Answer ip_reply | Timezone_null

definition generate_random_fingerprint_on ::
    "'g rng \<Rightarrow> bool \<Rightarrow> lookup \<Rightarrow> 'g \<Rightarrow> exn + (fingerprint \<times> 'g)" where
  "generate_random_fingerprint_on gen detect_timezone answer g =
     (case answer of
        Answer reply \<Rightarrow> generate_random_fingerprint gen detect_timezone reply g
      | Timezone_null \<Rightarrow>
          if detect_timezone then Inl TypeError
          else generate_random_fingerprint gen False Request_raised g)"

subsection \<open>Seeding: \<open>OzonParser.__init__\<close> and the draws of \<open>start\<close>\<close>

text \<open>
  \<open>__init__\<close> calls \<open>random.seed(seed)\<close> when a seed is given and leaves the generator
  alone otherwise; \<open>seedf\<close> is \<open>random.seed\<close>, the state a seed determines. The
  generator is the one of the module, shared by every parser of the process. The
  fingerprint is not drawn in \<open>__init__\<close> but later, in \<open>start\<close>, with the default
  argument \<open>detect_timezone = True\<close>; and the last statement of \<open>start\<close> draws the
  warm-up delay \<open>random.randint(2000, 4000)\<close>. \<open>start_draws\<close> is what a call of
  \<open>start\<close> that returns does with the generator: the fingerprint, the delay, the state
  left behind.
\<close>

definition init_seed :: "(int \<Rightarrow> 'g) \<Rightarrow> int option \<Rightarrow> 'g \<Rightarrow> 'g" where
  "init_seed seedf seed g = (case seed of None \<Rightarrow> g | Some n \<Rightarrow> seedf n)"

definition start_draws :: "'g rng \<Rightarrow> ip_reply \<Rightarrow> 'g \<Rightarrow> exn + (fingerprint \<times> int \<times> 'g)" where
  "start_draws gen reply g =
     bind_exn (generate_random_fingerprint gen True reply g) (\<lambda>(fp, g1).
     bind_exn (randint gen 2000 4000 g1) (\<lambda>(ms, g2). Inr (fp, ms, g2)))"

text \<open>
  A caller that builds two parsers with the same seed and then starts them:
  \<open>a = OzonParser(seed=s); b = OzonParser(seed=s); a.start(); b.start()\<close>.
  The value is the pair of the fingerprints of \<open>a\<close> and \<open>b\<close>.
\<close>

definition built_twice_then_started ::
    "(int \<Rightarrow> 'g) \<Rightarrow> 'g rng \<Rightarrow> int option \<Rightarrow> ip_reply \<Rightarrow> 'g \<Rightarrow> exn + (fingerprint \<times> fingerprint)" where
  "built_twice_then_started seedf gen seed reply g =
     (let g_a = init_seed seedf seed g;
          g_b = init_seed seedf seed g_a
      in bind_exn (start_draws gen reply g_b) (\<lambda>(fp_a, ms_a, g1).
         bind_exn (start_draws gen reply g1) (\<lambda>(fp_b, ms_b, g2). Inr (fp_a, fp_b))))"

text \<open>
  The generator of CPython after \<open>random.seed(42)\<close>, as far as this run needs it: the
  answers of \<open>_randbelow\<close> to the arguments 6, 9, 101, 111, 5, 11, 2001 of the first
  \<open>start\<close> and 6, 9, 101, 111, 5, 11, 2, 2001 of the second, with the lookup answering
  Europe/Moscow. \<open>seed_replay\<close> seeds the replaying generator with them.
\<close>

definition cpython_seed_42 :: "nat list" where
  "cpython_seed_42 = [5, 1, 3, 94, 2, 3, 457, 1, 1, 86, 94, 4, 1, 1, 65]"

definition seed_replay :: "int \<Rightarrow> nat list" where
  "seed_replay n = (if n = 42 then cpython_seed_42 else [])"

section \<open>Teardown: \<open>OzonParser.stop\<close>\<close>

text \<open>
  The three attributes \<open>page\<close>, \<open>browser\<close> and \<open>playwright\<close> are \<open>None\<close> or an
  object; \<open>if self.page:\<close> tests exactly that, so each is a flag here. A teardown call
  may raise; what it does is the parameter \<open>call\<close>, over a state \<open>'b\<close> of the browser
  stack. The list beside that state records the calls that were made, in order.
  \<open>stop\<close> has no \<open>try\<close>: an exception of a call leaves the method at once.
\<close>

datatype teardown = Page_close | Browser_close | Playwright_stop

record handles =
  page :: bool
  browser :: bool
  playwright :: bool

definition attempt ::
    "(teardown \<Rightarrow> 'b \<Rightarrow> (exn + unit) \<times> 'b) \<Rightarrow> teardown \<Rightarrow> 'b \<times> teardown list \<Rightarrow>
     (exn + unit) \<times> ('b \<times> teardown list)" where
  "attempt call step s =
     (case s of (b, made) \<Rightarrow> (case call step b of (r, b') \<Rightarrow> (r, (b', made @ [step]))))"

definition stop ::
    "(teardown \<Rightarrow> 'b \<Rightarrow> (exn + unit) \<times> 'b) \<Rightarrow> handles \<Rightarrow> 'b \<times> teardown list \<Rightarrow>
     (exn + unit) \<times> ('b \<times> teardown list)" where
  "stop call self s =
     then_do (if page self then attempt call Page_close s else (Inr (), s)) (\<lambda>_ s1.
     then_do (if browser self then attempt call Browser_close s1 else (Inr (), s1)) (\<lambda>_ s2.
     if playwright self then attempt call Playwright_stop s2 else (Inr (), s2)))"

text \<open>A browser stack whose page refuses to close, and whose other calls succeed.\<close>

fun page_close_fails :: "teardown \<Rightarrow> unit \<Rightarrow> (exn + unit) \<times> unit" where
  "page_close_fails Page_close b = (Inl (EngineError ''Target closed''), b)"
| "page_close_fails step b = (Inr (), b)"

text \<open>A browser stack on which every teardown call succeeds.\<close>

definition closes_quietly :: "teardown \<Rightarrow> unit \<Rightarrow> (exn + unit) \<times> unit" where
  "closes_quietly step b = (Inr (), b)"

section \<open>Page text\<close>

text \<open>
  The text of a page is a Python \<open>str\<close>: a sequence of Unicode code points, and
  \<open>len\<close> counts code points. So a text is a list of code points here, and \<open>ascii\<close>
  turns a literal of ASCII characters into one.
\<close>

type_synonym ustr = "nat list"

definition ascii :: "string \<Rightarrow> ustr" where
  "ascii s = map of_char s"

text \<open>
  \<open>str.isspace\<close> for one code point; \<open>str.strip()\<close> and the class \<open>\s\<close> of \<open>re\<close>
  use the same set: U+0009 to U+000D, U+001C to U+0020, U+0085, U+00A0, U+1680,
  U+2000 to U+200A, U+2028, U+2029, U+202F, U+205F, U+3000.
\<close>

definition isspace :: "nat \<Rightarrow> bool" where
  "isspace c \<longleftrightarrow>
     (9 \<le> c \<and> c \<le> 13) \<or> (28 \<le> c \<and> c \<le> 32) \<or> c = 133 \<or> c = 160 \<or> c = 5760 \<or>
     (8192 \<le> c \<and> c \<le> 8202) \<or> c = 8232 \<or> c = 8233 \<or> c = 8239 \<or> c = 8287 \<or> c = 12288"

definition strip :: "ustr \<Rightarrow> ustr" where
  "strip s = rev (dropWhile isspace (rev (dropWhile isspace s)))"

text \<open>
  The decimal digit value of a code point (\<open>unicodedata.decimal\<close>), which decides both
  the class \<open>\d\<close> of \<open>re\<close> and the digits that \<open>int\<close> accepts. For ASCII it is fixed;
  for the other code points it depends on the Unicode tables of the interpreter and is
  the parameter \<open>ud\<close>. No whitespace character is a decimal digit.
\<close>

definition decimal :: "(nat \<Rightarrow> nat option) \<Rightarrow> nat \<Rightarrow> nat option" where
  "decimal ud c =
     (if 48 \<le> c \<and> c \<le> 57 then Some (c - 48)
      else if c < 128 \<or> isspace c then None
      else ud c)"

text \<open>The interpreter whose only decimal digits are the ASCII ones.\<close>

definition ascii_digits_only :: "nat \<Rightarrow> nat option" where
  "ascii_digits_only c = None"

text \<open>
  \<open>re.search(r'[\d\s]+', s)\<close> followed by \<open>.group()\<close>: the leftmost match of a greedy
  one-or-more repetition of a character class is the first maximal run of characters of
  the class; there is no match when no character is in the class.
\<close>

definition digit_or_space :: "(nat \<Rightarrow> nat option) \<Rightarrow> nat \<Rightarrow> bool" where
  "digit_or_space ud c \<longleftrightarrow> decimal ud c \<noteq> None \<or> isspace c"

definition re_search_digits_spaces :: "(nat \<Rightarrow> nat option) \<Rightarrow> ustr \<Rightarrow> ustr option" where
  "re_search_digits_spaces ud s =
     (case dropWhile (\<lambda>c. \<not> digit_or_space ud c) s of
        [] \<Rightarrow> None
      | c # cs \<Rightarrow> Some (takeWhile (digit_or_space ud) (c # cs)))"

text \<open>
  \<open>int(s)\<close> on a string of digits and whitespace, which is all that the match above
  can hold (a sign or an underscore never reaches \<open>int\<close> here, and is an error in this
  model). \<open>int\<close> drops whitespace at both ends, but not the separators U+001C to
  U+001F, which \<open>str.isspace\<close> accepts; what is left must be one or more decimal
  digits, at most 4300 of them (the default limit of the interpreter on the length of a
  decimal string), or the call raises ValueError.
\<close>

definition int_space :: "nat \<Rightarrow> bool" where
  "int_space c \<longleftrightarrow> isspace c \<and> \<not> (28 \<le> c \<and> c \<le> 31)"

definition int_max_str_digits :: nat where
  "int_max_str_digits = 4300"

definition py_int :: "(nat \<Rightarrow> nat option) \<Rightarrow> ustr \<Rightarrow> exn + int" where
  "py_int ud s =
     (case those (map (decimal ud) (rev (dropWhile int_space (rev (dropWhile int_space s))))) of
        None \<Rightarrow> Inl ValueError
      | Some ds \<Rightarrow>
          if ds = [] \<or> int_max_str_digits < length ds then Inl ValueError
          else Inr (int (foldl (\<lambda>a d. 10 * a + d) 0 ds)))"

text \<open>
  The cleaning of the price, lines 518 to 522: nothing for an empty price or a price
  with no digit and no whitespace (the key \<open>price_number\<close> is then absent, \<open>None\<close>
  here); otherwise the match with every U+0020 removed goes to \<open>int\<close>, whose
  ValueError nothing catches.
\<close>

definition clean_price :: "(nat \<Rightarrow> nat option) \<Rightarrow> ustr \<Rightarrow> exn + int option" where
  "clean_price ud pr =
     (if pr = [] then Inr None
      else (case re_search_digits_spaces ud pr of
              None \<Rightarrow> Inr None
            | Some m \<Rightarrow> (case py_int ud (filter (\<lambda>c. c \<noteq> 32) m) of
                          Inl e \<Rightarrow> Inl e
                        | Inr n \<Rightarrow> Inr (Some n))))"

section \<open>Challenge detection\<close>

text \<open>
  The eight indicator phrases, in the order of the source; the Russian ones are written
  as code points. \<open>str.lower\<close> is the parameter \<open>lw\<close> of everything that classifies a
  text.
\<close>

definition captcha_indicators :: "ustr list" where
  "captcha_indicators =
     [[1076, 1086, 1089, 1090, 1091, 1087, 32, 1086, 1075, 1088, 1072, 1085, 1080, 1095, 1077,
       1085],
      ascii ''captcha'',
      [1087, 1086, 1076, 1090, 1074, 1077, 1088, 1076, 1080, 1090, 1077, 44, 32, 1095, 1090,
       1086, 32, 1074, 1099, 32, 1085, 1077, 32, 1073, 1086, 1090],
      [1087, 1086, 1076, 1090, 1074, 1077, 1088, 1076, 1080, 1090, 1077, 32, 1095, 1090, 1086,
       32, 1074, 1099, 32, 1085, 1077, 32, 1073, 1086, 1090],
      [1087, 1077, 1088, 1077, 1076, 1074, 1080, 1085, 1100, 1090, 1077, 32, 1087, 1086, 1083,
       1079, 1091, 1085, 1086, 1082],
      ascii ''verify you are human'',
      ascii ''human verification'',
      ascii ''challenge'']"

text \<open>\<open>any(indicator in text.lower() for indicator in captcha_indicators)\<close>\<close>

definition detected_captcha :: "(ustr \<Rightarrow> ustr) \<Rightarrow> ustr \<Rightarrow> bool" where
  "detected_captcha lw text = list_ex (\<lambda>indicator. contains indicator (lw text)) captcha_indicators"

text \<open>The test of line 456, which opens the wait for the operator.\<close>

definition challenged :: "(ustr \<Rightarrow> ustr) \<Rightarrow> ustr \<Rightarrow> bool" where
  "challenged lw page_text \<longleftrightarrow> detected_captcha lw page_text \<or> length page_text < 200"

text \<open>The test of line 471, which ends the wait.\<close>

definition captcha_passed :: "(ustr \<Rightarrow> ustr) \<Rightarrow> ustr \<Rightarrow> bool" where
  "captcha_passed lw current_text \<longleftrightarrow>
     \<not> detected_captcha lw current_text \<and> 500 < length current_text"

text \<open>
  A lower-casing for concrete runs: ASCII and the basic Russian capitals, everything
  else unchanged.
\<close>

definition lower_basic :: "ustr \<Rightarrow> ustr" where
  "lower_basic s =
     map (\<lambda>c. if (65 \<le> c \<and> c \<le> 90) \<or> (1040 \<le> c \<and> c \<le> 1071) then c + 32
              else if c = 1025 then 1105 else c) s"

section \<open>The page and \<open>parse_product\<close>\<close>

text \<open>
  The browser engine is outside the program. It is a parameter: a state \<open>'p\<close> of the
  page and, for each call the source makes, a function that returns either an exception or
  the call's value, and the next state. \<open>query_selector_text\<close> is the pair of calls
  \<open>query_selector(selector)\<close> and \<open>element.inner_text()\<close> of \<open>_extract_text\<close>:
  an exception of either, no element, or the element's text. The response that
  \<open>goto\<close> returns is only printed, so \<open>goto\<close> returns nothing here.
  A session is the page state and the list of the calls made so far.
\<close>

datatype event =
  Goto ustr | Wait_for_timeout nat | Inner_text_body | Screenshot | Query_selector string

record 'p engine =
  goto :: "ustr \<Rightarrow> 'p \<Rightarrow> (exn + unit) \<times> 'p"
  wait_for_timeout :: "nat \<Rightarrow> 'p \<Rightarrow> (exn + unit) \<times> 'p"
  inner_text_body :: "'p \<Rightarrow> (exn + ustr) \<times> 'p"
  screenshot :: "'p \<Rightarrow> (exn + unit) \<times> 'p"
  query_selector_text :: "string \<Rightarrow> 'p \<Rightarrow> (exn + ustr option) \<times> 'p"

type_synonym 'p session = "'p \<times> event list"

definition perform :: "event \<Rightarrow> ('p \<Rightarrow> (exn + 'a) \<times> 'p) \<Rightarrow> 'p session \<Rightarrow> (exn + 'a) \<times> 'p session" where
  "perform ev f s = (case s of (p, tr) \<Rightarrow> (case f p of (r, p') \<Rightarrow> (r, (p', tr @ [ev]))))"

definition page_goto :: "'p engine \<Rightarrow> ustr \<Rightarrow> 'p session \<Rightarrow> (exn + unit) \<times> 'p session" where
  "page_goto eng address = perform (Goto address) (goto eng address)"

definition page_wait_for_timeout ::
    "'p engine \<Rightarrow> nat \<Rightarrow> 'p session \<Rightarrow> (exn + unit) \<times> 'p session" where
  "page_wait_for_timeout eng ms = perform (Wait_for_timeout ms) (wait_for_timeout eng ms)"

definition page_inner_text :: "'p engine \<Rightarrow> 'p session \<Rightarrow> (exn + ustr) \<times> 'p session" where
  "page_inner_text eng = perform Inner_text_body (inner_text_body eng)"

definition page_screenshot :: "'p engine \<Rightarrow> 'p session \<Rightarrow> (exn + unit) \<times> 'p session" where
  "page_screenshot eng = perform Screenshot (screenshot eng)"

text \<open>
  \<open>_extract_text\<close>: the stripped text of the element, or the default when there is no
  element or when anything was raised.
\<close>

definition extract_text ::
    "'p engine \<Rightarrow> string \<Rightarrow> ustr \<Rightarrow> 'p session \<Rightarrow> ustr \<times> 'p session" where
  "extract_text eng selector default_text s =
     (case perform (Query_selector selector) (query_selector_text eng selector) s of
        (Inr (Some t), s') \<Rightarrow> (strip t, s')
      | (Inr None, s') \<Rightarrow> (default_text, s')
      | (Inl e, s') \<Rightarrow> (default_text, s'))"

text \<open>The selectors of \<open>SELECTORS["product"]\<close>, in the order \<open>parse_product\<close> uses them.\<close>

definition product_selectors :: "string list" where
  "product_selectors =
     [''h1[data-widget='webProductHeading']'', ''.tsHeadline500Medium'',
      ''.tsBodyControlLergeStrike'', ''.tsCaptionBold'', ''[itemprop='ratingValue']'',
      ''[itemprop='reviewCount']'', ''.a6c6'', ''.a0o6'', ''.pda6'']"

subsection \<open>The wait for the operator\<close>

text \<open>
  One pass of the body of \<open>for i in range(120)\<close>: the one-second wait, the fresh text,
  then \<open>break\<close> after a further wait of two seconds (\<open>Passed\<close>), or \<open>return\<close> of the
  timeout error at \<open>i \<ge> 119\<close> (\<open>Timed_out\<close>), or the next pass (\<open>Still_waiting\<close>).
\<close>

datatype tick = Passed | Timed_out | Still_waiting

definition poll_tick ::
    "'p engine \<Rightarrow> (ustr \<Rightarrow> ustr) \<Rightarrow> nat \<Rightarrow> 'p session \<Rightarrow> (exn + tick) \<times> 'p session" where
  "poll_tick eng lw i s =
     then_do (page_wait_for_timeout eng 1000 s) (\<lambda>_ s1.
     then_do (page_inner_text eng s1) (\<lambda>current_text s2.
       if captcha_passed lw current_text
       then then_do (page_wait_for_timeout eng 2000 s2) (\<lambda>_ s3. (Inr Passed, s3))
       else if 119 \<le> i then (Inr Timed_out, s2)
       else (Inr Still_waiting, s2)))"

text \<open>
  The loop, from pass \<open>i\<close> on. It ends with the first pass that does not ask for the
  next one, or when the range is used up.
\<close>

function poll_loop ::
    "'p engine \<Rightarrow> (ustr \<Rightarrow> ustr) \<Rightarrow> nat \<Rightarrow> 'p session \<Rightarrow> (exn + tick) \<times> 'p session" where
  "poll_loop eng lw i s =
     (if 120 \<le> i then (Inr Still_waiting, s)
      else (let r = poll_tick eng lw i s
            in if fst r = Inr Still_waiting then poll_loop eng lw (Suc i) (snd r) else r))"
  by pat_completeness auto
termination
  by (relation "measure (\<lambda>(eng, lw, i, s). 120 - i)") auto

declare poll_loop.simps [simp del]

subsection \<open>The body of the \<open>try\<close> statement\<close>

text \<open>
  Navigation, the settle delay of five seconds, the body text and its classification,
  the wait for the operator when the page is challenged, then the screenshot and a
  second reading of the text (which is only printed). The value says how the body ended:
  \<open>Timed_out\<close> for the \<open>return\<close> inside the loop, anything else for its normal end.
\<close>

definition try_body ::
    "'p engine \<Rightarrow> (ustr \<Rightarrow> ustr) \<Rightarrow> ustr \<Rightarrow> 'p session \<Rightarrow> (exn + tick) \<times> 'p session" where
  "try_body eng lw address s =
     then_do (page_goto eng address s) (\<lambda>_ s1.
     then_do (page_wait_for_timeout eng 5000 s1) (\<lambda>_ s2.
     then_do (page_inner_text eng s2) (\<lambda>page_text s3.
     then_do (if challenged lw page_text then poll_loop eng lw 0 s3 else (Inr Passed, s3))
       (\<lambda>t s4.
          if t = Timed_out then (Inr Timed_out, s4)
          else then_do (page_screenshot eng s4) (\<lambda>_ s5.
               then_do (page_inner_text eng s5) (\<lambda>_ s6. (Inr Passed, s6)))))))"

subsection \<open>Extraction and the result\<close>

record product_data =
  url :: ustr
  title :: ustr
  price :: ustr
  old_price :: ustr
  discount :: ustr
  rating :: ustr
  reviews :: ustr
  brand :: ustr
  seller :: ustr
  description :: ustr
  price_number :: "int option"

text \<open>
  What \<open>parse_product\<close> returns: the dict with the single key \<open>error\<close>, or the dict of
  the product. The two error texts of the source are \<open>CAPTCHA_timeout\<close>
  (\<open>"CAPTCHA timeout - ..."\<close>) and \<open>Load_failed e\<close> (the text that ends with the
  exception \<open>e\<close>).
\<close>

datatype error_field = CAPTCHA_timeout | Load_failed exn

datatype result = Error_dict error_field | Data_dict product_data

fun has_error_field :: "result \<Rightarrow> bool" where
  "has_error_field (Error_dict e) = True"
| "has_error_field (Data_dict d) = False"

text \<open>
  The argument \<open>url\<close> of \<open>parse_product\<close> is called \<open>address\<close> in the definitions,
  since \<open>url\<close> is the name of a key of the dict.
\<close>

text \<open>
  The part after the \<open>try\<close> statement: nine extractions, the cleaning of the price,
  the pause of five seconds, the return. Nothing here is inside a \<open>try\<close>, so the
  ValueError of the cleaning and an exception of the pause leave \<open>parse_product\<close>.
\<close>

definition extract_data ::
    "'p engine \<Rightarrow> (nat \<Rightarrow> nat option) \<Rightarrow> ustr \<Rightarrow> 'p session \<Rightarrow> (exn + result) \<times> 'p session" where
  "extract_data eng ud address s =
     (let (v_title, s1) = extract_text eng (product_selectors ! 0) [] s;
          (v_price, s2) = extract_text eng (product_selectors ! 1) [] s1;
          (v_old_price, s3) = extract_text eng (product_selectors ! 2) [] s2;
          (v_discount, s4) = extract_text eng (product_selectors ! 3) [] s3;
          (v_rating, s5) = extract_text eng (product_selectors ! 4) [] s4;
          (v_reviews, s6) = extract_text eng (product_selectors ! 5) [] s5;
          (v_brand, s7) = extract_text eng (product_selectors ! 6) [] s6;
          (v_seller, s8) = extract_text eng (product_selectors ! 7) [] s7;
          (v_description, s9) = extract_text eng (product_selectors ! 8) [] s8
      in (case clean_price ud v_price of
            Inl e \<Rightarrow> (Inl e, s9)
          | Inr n \<Rightarrow>
              then_do (page_wait_for_timeout eng 5000 s9) (\<lambda>_ s10.
                (Inr (Data_dict \<lparr>url = address, title = v_title, price = v_price,
                        old_price = v_old_price, discount = v_discount, rating = v_rating,
                        reviews = v_reviews, brand = v_brand, seller = v_seller,
                        description = v_description, price_number = n\<rparr>), s10))))"

text \<open>
  \<open>parse_product\<close>: the \<open>try\<close> body and its two handlers. A
  \<open>PlaywrightTimeoutError\<close> from anywhere in the body is printed and the method goes
  on to the extraction; any other exception returns the error dict; so does the timeout
  of the wait for the operator. The value is \<open>Inl\<close> for an exception that leaves the
  method and \<open>Inr\<close> for the dict it returns.
\<close>

definition parse_product ::
    "'p engine \<Rightarrow> (ustr \<Rightarrow> ustr) \<Rightarrow> (nat \<Rightarrow> nat option) \<Rightarrow> ustr \<Rightarrow> 'p session \<Rightarrow>
     (exn + result) \<times> 'p session" where
  "parse_product eng lw ud address s =
     (case try_body eng lw address s of
        (Inl e, s') \<Rightarrow>
          if e = PlaywrightTimeoutError then extract_data eng ud address s'
          else (Inr (Error_dict (Load_failed e)), s')
      | (Inr t, s') \<Rightarrow>
          if t = Timed_out then (Inr (Error_dict CAPTCHA_timeout), s')
          else extract_data eng ud address s')"

subsection \<open>Observations on a run\<close>

text \<open>The number of one-second waits among the calls made: the ticks of the wait loop.\<close>

definition ticks :: "event list \<Rightarrow> nat" where
  "ticks tr = length (filter (\<lambda>ev. ev = Wait_for_timeout 1000) tr)"

text \<open>
  The page stays challenged for the next \<open>n\<close> passes of the loop: each wait and each
  reading returns, and no text passes the test that ends the wait.
\<close>

fun stays_challenged :: "'p engine \<Rightarrow> (ustr \<Rightarrow> ustr) \<Rightarrow> nat \<Rightarrow> 'p session \<Rightarrow> bool" where
  "stays_challenged eng lw 0 s = True"
| "stays_challenged eng lw (Suc n) s =
     (case page_wait_for_timeout eng 1000 s of
        (Inl e, s1) \<Rightarrow> False
      | (Inr u, s1) \<Rightarrow>
          (case page_inner_text eng s1 of
             (Inl e, s2) \<Rightarrow> False
           | (Inr current_text, s2) \<Rightarrow>
               \<not> captcha_passed lw current_text \<and> stays_challenged eng lw n s2))"

subsection \<open>The numeric price as the specification words it\<close>

text \<open>
  The specification's wording of the numeric price: every character that is neither a
  digit nor whitespace is stripped from the whole text, and the remainder is parsed as
  an integer, the whitespace between its digits being no part of the number (the
  scenario \<open>"12 345 \<dots>"\<close> gives 12345).
\<close>

definition spec_price_number :: "(nat \<Rightarrow> nat option) \<Rightarrow> ustr \<Rightarrow> exn + int" where
  "spec_price_number ud pr =
     py_int ud (filter (\<lambda>c. \<not> isspace c) (filter (digit_or_space ud) pr))"

subsection \<open>Two concrete pages\<close>

text \<open>
  A page on which every call returns: the body text is \<open>body\<close> at every reading, and
  the only element found is the price, with text \<open>price_text\<close>.
\<close>

definition product_page :: "ustr \<Rightarrow> ustr \<Rightarrow> unit engine" where
  "product_page body price_text =
     \<lparr>goto = (\<lambda>address p. (Inr (), p)),
      wait_for_timeout = (\<lambda>ms p. (Inr (), p)),
      inner_text_body = (\<lambda>p. (Inr body, p)),
      screenshot = (\<lambda>p. (Inr (), p)),
      query_selector_text =
        (\<lambda>selector p. (Inr (if selector = ''.tsHeadline500Medium'' then Some price_text else None), p))\<rparr>"

text \<open>The same page behind a navigation that times out.\<close>

definition unreachable_page :: "unit engine" where
  "unreachable_page = (product_page [] [])\<lparr>goto := (\<lambda>address p. (Inl PlaywrightTimeoutError, p))\<rparr>"

definition example_url :: ustr where
  "example_url = ascii ''https://www.ozon.ru/product/1''"

section \<open>Properties of the fingerprint\<close>

lemma choice_Inr:
  assumes "seq \<noteq> []"
  obtains x where "choice gen seq g = Inr (x, snd (gen g))" and "x \<in> set seq"
proof -
  obtain r g' where r: "gen g = (r, g')" by (cases "gen g")
  from assms have "r mod length seq < length seq" by simp
  then have "seq ! (r mod length seq) \<in> set seq" by simp
  moreover from assms r have "choice gen seq g = Inr (seq ! (r mod length seq), snd (gen g))"
    by (cases seq) (simp_all add: choice_def randbelow_def)
  ultimately show thesis using that by blast
qed

lemma randint_Inr:
  assumes "a \<le> b"
  obtains k where "randint gen a b g = Inr (k, snd (gen g))" and "a \<le> k" and "k \<le> b"
proof -
  obtain r g' where r: "gen g = (r, g')" by (cases "gen g")
  from assms have "r mod nat (b - a + 1) < nat (b - a + 1)" by simp
  then have "a + int (r mod nat (b - a + 1)) \<le> b" by linarith
  moreover from assms r have "randint gen a b g = Inr (a + int (r mod nat (b - a + 1)), snd (gen g))"
    by (simp add: randint_def randbelow_def)
  ultimately show thesis using that by simp
qed

lemma memory_map_core_counts:
  "c \<in> set core_counts \<Longrightarrow> \<exists>m. memory_map c = Some m"
  by (auto simp: core_counts_def memory_map_def)

text \<open>
  Every call returns a fingerprint, built from draws that are in range. The state
  before the platform draw is the one after four raw draws.
\<close>

lemma generate_random_fingerprint_Inr:
  fixes gen :: "'g rng" and detect_timezone :: bool and reply :: ip_reply and g :: 'g
  defines "tz \<equiv> initial_timezone detect_timezone reply"
  defines "g4 \<equiv> snd (gen (snd (gen (snd (gen (snd (gen g)))))))"
  obtains cores w h dw dh plat ua mem touch g7 where
    "generate_random_fingerprint gen detect_timezone reply g =
      Inr (\<lparr>user_agent = ua,
             screen = \<lparr>width = w, height = h, avail_width = w - dw, avail_height = h - dh,
                       color_depth = 24, pixel_depth = 24\<rparr>,
             viewport = \<lparr>vp_width = w, vp_height = h - 40\<rparr>,
             navigator = \<lparr>hardware_concurrency = cores, device_memory = mem,
                          max_touch_points = touch, platform = plat, language = ''ru-RU'',
                          languages = [''ru-RU'', ''ru'', ''en-US'', ''en''],
                          vendor = ''Google Inc.''\<rparr>,
             timezone = (if plat = ''MacIntel'' \<and> is_russian_tz tz then ''Europe/Moscow'' else tz),
             locale = ''ru-RU''\<rparr>, g7)"
    and "cores \<in> set core_counts" and "memory_map cores = Some mem"
    and "0 \<le> dw" and "dw \<le> 100" and "40 \<le> dh" and "dh \<le> 150"
    and "choice gen (platforms (is_russian_tz tz)) g4 = Inr (plat, snd (gen g4))"
proof -
  define russian where "russian = is_russian_tz tz"
  define g1 where "g1 = snd (gen g)"
  define g2 where "g2 = snd (gen g1)"
  define g3 where "g3 = snd (gen g2)"
  have g4: "g4 = snd (gen g3)" by (simp add: g4_def g3_def g2_def g1_def)
  define g5 where "g5 = snd (gen g4)"
  define g6 where "g6 = snd (gen g5)"
  obtain cores where c: "choice gen core_counts g = Inr (cores, g1)" and cin: "cores \<in> set core_counts"
    unfolding g1_def by (rule choice_Inr [of core_counts gen g]) (simp add: core_counts_def)
  obtain wh where r: "choice gen resolutions g1 = Inr (wh, g2)"
    unfolding g2_def by (rule choice_Inr [of resolutions gen g1]) (simp add: resolutions_def)
  obtain w h where wh: "wh = (w, h)" by (cases wh)
  obtain dw where dw: "randint gen 0 100 g2 = Inr (dw, g3)" and dw0: "0 \<le> dw" "dw \<le> 100"
    unfolding g3_def by (rule randint_Inr [of 0 100 gen g2]) simp
  obtain dh where dh: "randint gen 40 150 g3 = Inr (dh, g4)" and dh0: "40 \<le> dh" "dh \<le> 150"
    unfolding g4 by (rule randint_Inr [of 40 150 gen g3]) simp
  obtain plat where p: "choice gen (platforms russian) g4 = Inr (plat, g5)"
    unfolding g5_def by (rule choice_Inr [of "platforms russian" gen g4]) (simp add: platforms_def)
  obtain ua where u: "choice gen USER_AGENTS g5 = Inr (ua, g6)"
    unfolding g6_def by (rule choice_Inr [of USER_AGENTS gen g5]) (simp add: USER_AGENTS_def)
  obtain mem where m: "memory_map cores = Some mem"
    using memory_map_core_counts [OF cin] by blast
  obtain touch :: int and g7
    where t: "(if plat = ''Win32'' then Inr (0, g6) else choice gen [0, 5] g6) = Inr (touch, g7)"
  proof (cases "plat = ''Win32''")
    case True
    then show ?thesis using that by simp
  next
    case False
    obtain x where "choice gen [0, 5::int] g6 = Inr (x, snd (gen g6))"
      by (rule choice_Inr [of "[0, 5::int]" gen g6]) simp
    with False show ?thesis using that by simp
  qed
  have "generate_random_fingerprint gen detect_timezone reply g =
      Inr (\<lparr>user_agent = ua,
             screen = \<lparr>width = w, height = h, avail_width = w - dw, avail_height = h - dh,
                       color_depth = 24, pixel_depth = 24\<rparr>,
             viewport = \<lparr>vp_width = w, vp_height = h - 40\<rparr>,
             navigator = \<lparr>hardware_concurrency = cores, device_memory = mem,
                          max_touch_points = touch, platform = plat, language = ''ru-RU'',
                          languages = [''ru-RU'', ''ru'', ''en-US'', ''en''],
                          vendor = ''Google Inc.''\<rparr>,
             timezone = (if plat = ''MacIntel'' \<and> russian then ''Europe/Moscow'' else tz),
             locale = ''ru-RU''\<rparr>, g7)"
    unfolding generate_random_fingerprint_def Let_def tz_def [symmetric] russian_def [symmetric]
    by (simp add: bind_exn_def c r wh dw dh p u m t del: One_nat_def)
  then show thesis
    using that cin m dw0 dh0 p unfolding russian_def g5_def by blast
qed

lemma generate_random_fingerprint_returns:
  "\<exists>fp g'. generate_random_fingerprint gen detect_timezone reply g = Inr (fp, g')"
  by (rule generate_random_fingerprint_Inr [of gen detect_timezone reply g]) blast

text \<open>A \<open>null\<close> timezone in the reply: the call raises and returns no fingerprint.\<close>

lemma generate_random_fingerprint_on_null:
  "generate_random_fingerprint_on gen True Timezone_null g = Inl TypeError"
  by (simp add: generate_random_fingerprint_on_def)

text \<open>The substring test finds exactly the contiguous occurrences.\<close>

lemma contains_iff: "contains needle hay \<longleftrightarrow> (\<exists>ps ss. hay = ps @ needle @ ss)"
proof (induction hay)
  case Nil
  show ?case by auto
next
  case (Cons c cs)
  have "contains needle (c # cs) \<longleftrightarrow> prefix needle (c # cs) \<or> sublist needle cs"
    using Cons.IH by (simp add: sublist_def)
  also have "\<dots> \<longleftrightarrow> sublist needle (c # cs)"
    by (simp add: sublist_Cons_right)
  finally show ?case by (simp add: sublist_def)
qed

text \<open>
  C1. Whatever the state of the random source and whatever the timezone lookup answers,
  \<open>generate_random_fingerprint\<close> returns a fingerprint, and in it: the device memory
  is the value of the fixed map at the number of cores (one of 4, 6, 8, 12, 16); the
  available width is at most the width; the available height is below the height, by
  between 40 and 150; the viewport is as wide as the screen and 40 lower.
\<close>

theorem fingerprint_consistent:
  "\<exists>fp g'. generate_random_fingerprint gen detect_timezone reply g = Inr (fp, g') \<and>
     memory_map (hardware_concurrency (navigator fp)) = Some (device_memory (navigator fp)) \<and>
     memory_map = map_of [(4, 8), (6, 16), (8, 16), (12, 32), (16, 32)] \<and>
     hardware_concurrency (navigator fp) \<in> {4, 6, 8, 12, 16} \<and>
     avail_width (screen fp) \<le> width (screen fp) \<and>
     avail_height (screen fp) < height (screen fp) \<and>
     40 \<le> height (screen fp) - avail_height (screen fp) \<and>
     height (screen fp) - avail_height (screen fp) \<le> 150 \<and>
     vp_width (viewport fp) = width (screen fp) \<and>
     vp_height (viewport fp) = height (screen fp) - 40"
proof -
  obtain cores w h dw dh plat ua mem touch g7 where
    gen: "generate_random_fingerprint gen detect_timezone reply g =
      Inr (\<lparr>user_agent = ua,
             screen = \<lparr>width = w, height = h, avail_width = w - dw, avail_height = h - dh,
                       color_depth = 24, pixel_depth = 24\<rparr>,
             viewport = \<lparr>vp_width = w, vp_height = h - 40\<rparr>,
             navigator = \<lparr>hardware_concurrency = cores, device_memory = mem,
                          max_touch_points = touch, platform = plat, language = ''ru-RU'',
                          languages = [''ru-RU'', ''ru'', ''en-US'', ''en''],
                          vendor = ''Google Inc.''\<rparr>,
             timezone = (if plat = ''MacIntel'' \<and> is_russian_tz (initial_timezone detect_timezone reply)
                         then ''Europe/Moscow'' else initial_timezone detect_timezone reply),
             locale = ''ru-RU''\<rparr>, g7)"
    and cin: "cores \<in> set core_counts" and m: "memory_map cores = Some mem"
    and d: "0 \<le> dw" "40 \<le> dh" "dh \<le> 150"
    by (rule generate_random_fingerprint_Inr [of gen detect_timezone reply g])
  from cin have "cores \<in> {4, 6, 8, 12, 16}" by (simp add: core_counts_def)
  moreover have "memory_map = map_of [(4, 8), (6, 16), (8, 16), (12, 32), (16, 32)]"
    by (simp add: memory_map_def)
  ultimately show ?thesis using gen m d by simp
qed

text \<open>
  A parser that is started right after it was built with a seed draws from the state of
  that seed, whatever the generator held before.
\<close>

lemma start_after_seeding:
  "start_draws gen reply (init_seed seedf (Some n) g) = start_draws gen reply (seedf n)"
  by (simp add: init_seed_def)

text \<open>
  C5. Two parsers built with the seed 42 and then started, the lookup answering
  Europe/Moscow both times, do not get the same fingerprint: the second is drawn from
  the state that the first \<open>start\<close> left behind, not from the state of the seed. With the
  draws of the interpreter the first has 16 cores, 32 GiB, an available width of 1917,
  the platform Win32 and no touch points; the second has 6 cores, 16 GiB, an available
  width of 1834, the platform Linux and 5 touch points.
\<close>

theorem same_seed_two_parsers_differ:
  "built_twice_then_started seed_replay replay (Some 42) (Reply 200 (Some ''Europe/Moscow'')) []
     = Inr (\<lparr>user_agent = USER_AGENTS ! 3,
              screen = \<lparr>width = 1920, height = 1080, avail_width = 1917, avail_height = 946,
                        color_depth = 24, pixel_depth = 24\<rparr>,
              viewport = \<lparr>vp_width = 1920, vp_height = 1040\<rparr>,
              navigator = \<lparr>hardware_concurrency = 16, device_memory = 32,
                           max_touch_points = 0, platform = ''Win32'', language = ''ru-RU'',
                           languages = [''ru-RU'', ''ru'', ''en-US'', ''en''],
                           vendor = ''Google Inc.''\<rparr>,
              timezone = ''Europe/Moscow'', locale = ''ru-RU''\<rparr>,
            \<lparr>user_agent = USER_AGENTS ! 1,
              screen = \<lparr>width = 1920, height = 1080, avail_width = 1834, avail_height = 946,
                        color_depth = 24, pixel_depth = 24\<rparr>,
              viewport = \<lparr>vp_width = 1920, vp_height = 1040\<rparr>,
              navigator = \<lparr>hardware_concurrency = 6, device_memory = 16,
                           max_touch_points = 5, platform = ''Linux x86_64'', language = ''ru-RU'',
                           languages = [''ru-RU'', ''ru'', ''en-US'', ''en''],
                           vendor = ''Google Inc.''\<rparr>,
              timezone = ''Europe/Moscow'', locale = ''ru-RU''\<rparr>)"
proof -
  have tz: "initial_timezone True (Reply 200 (Some ''Europe/Moscow'')) = ''Europe/Moscow''"
    by (simp add: initial_timezone_def)
  have ru: "is_russian_tz ''Europe/Moscow''"
    by (simp add: is_russian_tz_def)
  show ?thesis
    by (simp add: built_twice_then_started_def init_seed_def seed_replay_def cpython_seed_42_def
        start_draws_def generate_random_fingerprint_def tz ru bind_exn_def choice_def
        randbelow_def randint_def core_counts_def resolutions_def platforms_def memory_map_def
        USER_AGENTS_def)
qed

text \<open>
  For a timezone that passes the test of line 94: a fingerprint whose platform is
  MacIntel has the timezone Europe/Moscow; and the platform is the draw from the list in
  which Win32 holds three places of five, against one of three in the list used
  otherwise.
\<close>

lemma named_zone_platform_and_moscow:
  fixes gen :: "'g rng" and g :: 'g
  assumes "generate_random_fingerprint gen detect_timezone reply g = Inr (fp, g')"
    and "is_russian_tz (initial_timezone detect_timezone reply)"
  shows "(platform (navigator fp) = ''MacIntel'' \<longrightarrow> timezone fp = ''Europe/Moscow'') \<and>
    choice gen (platforms True) (snd (gen (snd (gen (snd (gen (snd (gen g))))))))
      = Inr (platform (navigator fp), snd (gen (snd (gen (snd (gen (snd (gen (snd (gen g)))))))))) \<and>
    count_list (platforms True) ''Win32'' = 3 \<and> length (platforms True) = 5 \<and>
    count_list (platforms False) ''Win32'' = 1 \<and> length (platforms False) = 3"
proof -
  obtain cores w h dw dh plat ua mem touch g7 where
    gen: "generate_random_fingerprint gen detect_timezone reply g =
      Inr (\<lparr>user_agent = ua,
             screen = \<lparr>width = w, height = h, avail_width = w - dw, avail_height = h - dh,
                       color_depth = 24, pixel_depth = 24\<rparr>,
             viewport = \<lparr>vp_width = w, vp_height = h - 40\<rparr>,
             navigator = \<lparr>hardware_concurrency = cores, device_memory = mem,
                          max_touch_points = touch, platform = plat, language = ''ru-RU'',
                          languages = [''ru-RU'', ''ru'', ''en-US'', ''en''],
                          vendor = ''Google Inc.''\<rparr>,
             timezone = (if plat = ''MacIntel'' \<and> is_russian_tz (initial_timezone detect_timezone reply)
                         then ''Europe/Moscow'' else initial_timezone detect_timezone reply),
             locale = ''ru-RU''\<rparr>, g7)"
    and p: "choice gen (platforms (is_russian_tz (initial_timezone detect_timezone reply)))
              (snd (gen (snd (gen (snd (gen (snd (gen g))))))))
            = Inr (plat, snd (gen (snd (gen (snd (gen (snd (gen (snd (gen g))))))))))"
    by (rule generate_random_fingerprint_Inr [of gen detect_timezone reply g])
  from gen assms(1) have plat: "platform (navigator fp) = plat"
    and tz: "timezone fp = (if plat = ''MacIntel'' then ''Europe/Moscow''
                            else initial_timezone detect_timezone reply)"
    using assms(2) by auto
  have "count_list (platforms True) ''Win32'' = 3 \<and> length (platforms True) = 5 \<and>
    count_list (platforms False) ''Win32'' = 1 \<and> length (platforms False) = 3"
    by (simp add: platforms_def)
  with plat tz p assms(2) show ?thesis by simp
qed

text \<open>
  C9. Asia/Novosibirsk is a timezone of Russia, and the test of line 94 does not know
  it: when the lookup answers it, the platform is drawn from the plain list of three
  (index 1 of three is MacIntel), and the fingerprint with the platform MacIntel keeps
  the timezone Asia/Novosibirsk instead of Europe/Moscow.
\<close>

theorem novosibirsk_macintel_keeps_timezone:
  "\<not> is_russian_tz (initial_timezone True (Reply 200 (Some ''Asia/Novosibirsk''))) \<and>
   platforms (is_russian_tz (initial_timezone True (Reply 200 (Some ''Asia/Novosibirsk''))))
     = [''Win32'', ''MacIntel'', ''Linux x86_64''] \<and>
   generate_random_fingerprint replay True (Reply 200 (Some ''Asia/Novosibirsk''))
       [5, 1, 3, 94, 1, 3, 1]
     = Inr (\<lparr>user_agent = USER_AGENTS ! 3,
              screen = \<lparr>width = 1920, height = 1080, avail_width = 1917, avail_height = 946,
                        color_depth = 24, pixel_depth = 24\<rparr>,
              viewport = \<lparr>vp_width = 1920, vp_height = 1040\<rparr>,
              navigator = \<lparr>hardware_concurrency = 16, device_memory = 32,
                           max_touch_points = 5, platform = ''MacIntel'', language = ''ru-RU'',
                           languages = [''ru-RU'', ''ru'', ''en-US'', ''en''],
                           vendor = ''Google Inc.''\<rparr>,
              timezone = ''Asia/Novosibirsk'', locale = ''ru-RU''\<rparr>, [])"
proof -
  have tz: "initial_timezone True (Reply 200 (Some ''Asia/Novosibirsk'')) = ''Asia/Novosibirsk''"
    by (simp add: initial_timezone_def)
  have ru: "\<not> is_russian_tz ''Asia/Novosibirsk''"
    by (simp add: is_russian_tz_def)
  have g: "generate_random_fingerprint replay True (Reply 200 (Some ''Asia/Novosibirsk''))
       [5, 1, 3, 94, 1, 3, 1]
     = Inr (\<lparr>user_agent = USER_AGENTS ! 3,
              screen = \<lparr>width = 1920, height = 1080, avail_width = 1917, avail_height = 946,
                        color_depth = 24, pixel_depth = 24\<rparr>,
              viewport = \<lparr>vp_width = 1920, vp_height = 1040\<rparr>,
              navigator = \<lparr>hardware_concurrency = 16, device_memory = 32,
                           max_touch_points = 5, platform = ''MacIntel'', language = ''ru-RU'',
                           languages = [''ru-RU'', ''ru'', ''en-US'', ''en''],
                           vendor = ''Google Inc.''\<rparr>,
              timezone = ''Asia/Novosibirsk'', locale = ''ru-RU''\<rparr>, [])"
    by (simp add: generate_random_fingerprint_def tz ru bind_exn_def choice_def
        randbelow_def randint_def core_counts_def resolutions_def platforms_def memory_map_def
        USER_AGENTS_def)
  from ru g show ?thesis by (simp add: tz platforms_def)
qed

text \<open>
  C10. The test for a Russian zone holds exactly for the strings in which one of the
  four names Moscow, Kaliningrad, Samara, Yekaterinburg occurs; Asia/Novosibirsk does not
  pass it. For a timezone that does not pass it, the platform is the draw from the plain
  list of three platforms and the fingerprint keeps the timezone as it was obtained.
\<close>

theorem russian_zone_test_is_four_substrings:
  fixes gen :: "'g rng" and g :: 'g
  shows "(is_russian_tz tz \<longleftrightarrow>
       (\<exists>ps ss. tz = ps @ ''Moscow'' @ ss) \<or> (\<exists>ps ss. tz = ps @ ''Kaliningrad'' @ ss) \<or>
       (\<exists>ps ss. tz = ps @ ''Samara'' @ ss) \<or> (\<exists>ps ss. tz = ps @ ''Yekaterinburg'' @ ss)) \<and>
    \<not> is_russian_tz ''Asia/Novosibirsk'' \<and>
    (\<not> is_russian_tz (initial_timezone detect_timezone reply) \<longrightarrow>
       (\<exists>fp g'. generate_random_fingerprint gen detect_timezone reply g = Inr (fp, g') \<and>
          choice gen (platforms False) (snd (gen (snd (gen (snd (gen (snd (gen g))))))))
            = Inr (platform (navigator fp), snd (gen (snd (gen (snd (gen (snd (gen (snd (gen g)))))))))) \<and>
          platforms False = [''Win32'', ''MacIntel'', ''Linux x86_64''] \<and>
          timezone fp = initial_timezone detect_timezone reply))"
proof -
  have a: "is_russian_tz tz \<longleftrightarrow>
       (\<exists>ps ss. tz = ps @ ''Moscow'' @ ss) \<or> (\<exists>ps ss. tz = ps @ ''Kaliningrad'' @ ss) \<or>
       (\<exists>ps ss. tz = ps @ ''Samara'' @ ss) \<or> (\<exists>ps ss. tz = ps @ ''Yekaterinburg'' @ ss)"
    unfolding is_russian_tz_def contains_iff ..
  have b: "\<not> is_russian_tz ''Asia/Novosibirsk''"
    by (simp add: is_russian_tz_def)
  have c: "\<exists>fp g'. generate_random_fingerprint gen detect_timezone reply g = Inr (fp, g') \<and>
          choice gen (platforms False) (snd (gen (snd (gen (snd (gen (snd (gen g))))))))
            = Inr (platform (navigator fp), snd (gen (snd (gen (snd (gen (snd (gen (snd (gen g)))))))))) \<and>
          platforms False = [''Win32'', ''MacIntel'', ''Linux x86_64''] \<and>
          timezone fp = initial_timezone detect_timezone reply"
    if n: "\<not> is_russian_tz (initial_timezone detect_timezone reply)"
  proof -
    obtain cores w h dw dh plat ua mem touch g7 where
      gen: "generate_random_fingerprint gen detect_timezone reply g =
        Inr (\<lparr>user_agent = ua,
               screen = \<lparr>width = w, height = h, avail_width = w - dw, avail_height = h - dh,
                         color_depth = 24, pixel_depth = 24\<rparr>,
               viewport = \<lparr>vp_width = w, vp_height = h - 40\<rparr>,
               navigator = \<lparr>hardware_concurrency = cores, device_memory = mem,
                            max_touch_points = touch, platform = plat, language = ''ru-RU'',
                            languages = [''ru-RU'', ''ru'', ''en-US'', ''en''],
                            vendor = ''Google Inc.''\<rparr>,
               timezone = (if plat = ''MacIntel'' \<and> is_russian_tz (initial_timezone detect_timezone reply)
                           then ''Europe/Moscow'' else initial_timezone detect_timezone reply),
               locale = ''ru-RU''\<rparr>, g7)"
      and p: "choice gen (platforms (is_russian_tz (initial_timezone detect_timezone reply)))
                (snd (gen (snd (gen (snd (gen (snd (gen g))))))))
              = Inr (plat, snd (gen (snd (gen (snd (gen (snd (gen (snd (gen g))))))))))"
      by (rule generate_random_fingerprint_Inr [of gen detect_timezone reply g])
    have "platforms False = [''Win32'', ''MacIntel'', ''Linux x86_64'']"
      by (simp add: platforms_def)
    with gen p n show ?thesis by simp
  qed
  from a b c show ?thesis by blast
qed

theorem russian_zone_test_is_four_substrings_witness:
  "\<not> is_russian_tz (initial_timezone True (Reply 200 (Some ''Asia/Novosibirsk''))) \<and>
   (\<exists>fp g'. generate_random_fingerprint replay True (Reply 200 (Some ''Asia/Novosibirsk''))
        [0, 0, 0, 0, 1] = Inr (fp, g') \<and>
      platform (navigator fp) = ''MacIntel'' \<and> timezone fp = ''Asia/Novosibirsk'')"
proof -
  have n: "\<not> is_russian_tz (initial_timezone True (Reply 200 (Some ''Asia/Novosibirsk'')))"
    by (simp add: is_russian_tz_def initial_timezone_def)
  have c: "choice replay (platforms False) [1] = Inr (''MacIntel'', [])"
    by (simp add: choice_def randbelow_def platforms_def)
  have t: "initial_timezone True (Reply 200 (Some ''Asia/Novosibirsk'')) = ''Asia/Novosibirsk''"
    by (simp add: initial_timezone_def)
  from russian_zone_test_is_four_substrings
    [of "''Asia/Novosibirsk''" True "Reply 200 (Some ''Asia/Novosibirsk'')" replay "[0, 0, 0, 0, 1]"] n c t
  show ?thesis by auto
qed

section \<open>Properties of the teardown\<close>

text \<open>
  C4, as claimed, fails: with all three resources live and a page whose \<open>close\<close>
  raises, \<open>stop\<close> raises that exception after the one call; neither the browser nor
  the driver is asked to close.
\<close>

theorem stop_aborts_at_first_failure_counterexample:
  "page \<lparr>page = True, browser = True, playwright = True\<rparr> \<and>
   browser \<lparr>page = True, browser = True, playwright = True\<rparr> \<and>
   playwright \<lparr>page = True, browser = True, playwright = True\<rparr> \<and>
   stop page_close_fails \<lparr>page = True, browser = True, playwright = True\<rparr> ((), [])
     = (Inl (EngineError ''Target closed''), ((), [Page_close]))"
  by (simp add: stop_def then_do_def attempt_def)

text \<open>
  C4, amended. \<open>stop\<close> makes the calls in the order page, browser, driver. A step is
  attempted exactly when its resource is live and no earlier attempted step has raised;
  an exception of a step leaves \<open>stop\<close> at once, with the later steps not attempted.
  (\<open>made\<close> is the list of calls of a run that starts with none made.)
\<close>

theorem stop_attempts_until_first_failure:
  fixes call :: "teardown \<Rightarrow> 'b \<Rightarrow> (exn + unit) \<times> 'b"
  defines "b1 \<equiv> (\<lambda>self b. if page self then snd (call Page_close b) else b)"
  defines "made \<equiv> (\<lambda>self b. snd (snd (stop call self (b, []))))"
  shows "(Page_close \<in> set (made self b) \<longleftrightarrow> page self) \<and>
    (Browser_close \<in> set (made self b) \<longleftrightarrow>
       browser self \<and> (page self \<longrightarrow> fst (call Page_close b) = Inr ())) \<and>
    (Playwright_stop \<in> set (made self b) \<longleftrightarrow>
       playwright self \<and> (page self \<longrightarrow> fst (call Page_close b) = Inr ()) \<and>
       (browser self \<longrightarrow> fst (call Browser_close (b1 self b)) = Inr ())) \<and>
    made self b = filter (\<lambda>step. step \<in> set (made self b)) [Page_close, Browser_close, Playwright_stop] \<and>
    (page self \<and> fst (call Page_close b) = Inl e \<longrightarrow>
       stop call self (b, []) = (Inl e, (snd (call Page_close b), [Page_close])))"
  unfolding b1_def made_def
  by (cases "call Page_close b"; cases "call Browser_close (snd (call Page_close b))";
      cases "call Browser_close b";
      cases "call Playwright_stop (snd (call Browser_close (snd (call Page_close b))))";
      cases "call Playwright_stop (snd (call Browser_close b))";
      cases "call Playwright_stop (snd (call Page_close b))";
      cases "call Playwright_stop b")
     (auto simp: stop_def then_do_def attempt_def split: sum.splits)

theorem stop_attempts_until_first_failure_witness:
  "snd (snd (stop closes_quietly \<lparr>page = True, browser = True, playwright = True\<rparr> ((), [])))
     = [Page_close, Browser_close, Playwright_stop]"
proof -
  let ?made = "snd (snd (stop closes_quietly \<lparr>page = True, browser = True, playwright = True\<rparr> ((), [])))"
  note t = stop_attempts_until_first_failure
    [of closes_quietly "\<lparr>page = True, browser = True, playwright = True\<rparr>" "()"]
  from t have a: "Page_close \<in> set ?made" "Browser_close \<in> set ?made" "Playwright_stop \<in> set ?made"
    by (simp_all add: closes_quietly_def)
  from t have f: "?made = filter (\<lambda>step. step \<in> set ?made) [Page_close, Browser_close, Playwright_stop]"
    by blast
  from a have "filter (\<lambda>step. step \<in> set ?made) [Page_close, Browser_close, Playwright_stop]
      = [Page_close, Browser_close, Playwright_stop]"
    by simp
  with f show ?thesis by (rule trans)
qed

section \<open>Properties of \<open>parse_product\<close>\<close>

lemma perform_calls: "snd (snd (perform ev f s)) = snd s @ [ev]"
  by (simp add: perform_def split: prod.splits)

lemma page_calls:
  "snd (snd (page_goto eng address s)) = snd s @ [Goto address]"
  "snd (snd (page_wait_for_timeout eng ms s)) = snd s @ [Wait_for_timeout ms]"
  "snd (snd (page_inner_text eng s)) = snd s @ [Inner_text_body]"
  "snd (snd (page_screenshot eng s)) = snd s @ [Screenshot]"
  by (simp_all add: page_goto_def page_wait_for_timeout_def page_inner_text_def
      page_screenshot_def perform_calls)

lemma extract_text_calls:
  "snd (snd (extract_text eng selector d s)) = snd s @ [Query_selector selector]"
proof -
  obtain r s' where p: "perform (Query_selector selector) (query_selector_text eng selector) s = (r, s')"
    by (cases "perform (Query_selector selector) (query_selector_text eng selector) s")
  with perform_calls [of "Query_selector selector" "query_selector_text eng selector" s]
  have "snd s' = snd s @ [Query_selector selector]" by simp
  with p show ?thesis
    by (simp add: extract_text_def split: sum.splits option.splits)
qed

lemma ticks_append: "ticks (xs @ ys) = ticks xs + ticks ys"
  by (simp add: ticks_def)

lemma ticks_single:
  "ticks [Goto a] = 0" "ticks [Inner_text_body] = 0" "ticks [Screenshot] = 0"
  "ticks [Query_selector sel] = 0" "ticks [Wait_for_timeout ms] = (if ms = 1000 then 1 else 0)"
  "ticks [] = 0"
  by (simp_all add: ticks_def)

lemma extract_data_calls:
  "\<exists>w. snd (snd (extract_data eng ud address s)) = snd s @ map Query_selector product_selectors @ w \<and>
       (w = [] \<or> w = [Wait_for_timeout 5000])"
  by (simp add: extract_data_def Let_def split_beta then_do_def extract_text_calls page_calls
      product_selectors_def split: sum.splits prod.splits)

lemma ticks_Query_selectors: "ticks (map Query_selector sels) = 0"
  by (induction sels) (simp_all add: ticks_def)

lemma extract_data_ticks:
  "ticks (snd (snd (extract_data eng ud address s))) = ticks (snd s)"
proof -
  obtain w where "snd (snd (extract_data eng ud address s)) = snd s @ map Query_selector product_selectors @ w"
    and "w = [] \<or> w = [Wait_for_timeout 5000]"
    using extract_data_calls by blast
  then show ?thesis
    by (auto simp: ticks_append ticks_Query_selectors ticks_single)
qed

lemma poll_tick_ticks:
  "ticks (snd (snd (poll_tick eng lw i s))) = Suc (ticks (snd s))"
proof -
  obtain r1 s1 where w: "page_wait_for_timeout eng 1000 s = (r1, s1)"
    by (cases "page_wait_for_timeout eng 1000 s")
  with page_calls(2) [of eng 1000 s] have s1: "snd s1 = snd s @ [Wait_for_timeout 1000]" by simp
  obtain r2 s2 where t: "page_inner_text eng s1 = (r2, s2)"
    by (cases "page_inner_text eng s1")
  with page_calls(3) [of eng s1] have s2: "snd s2 = snd s1 @ [Inner_text_body]" by simp
  obtain r3 s3 where z: "page_wait_for_timeout eng 2000 s2 = (r3, s3)"
    by (cases "page_wait_for_timeout eng 2000 s2")
  with page_calls(2) [of eng 2000 s2] have s3: "snd s3 = snd s2 @ [Wait_for_timeout 2000]" by simp
  show ?thesis
    by (cases r1; cases r2; cases r3)
       (simp_all add: poll_tick_def then_do_def w t z s1 s2 s3 ticks_def)
qed

lemma poll_loop_ticks_le:
  "ticks (snd (snd (poll_loop eng lw i s))) \<le> ticks (snd s) + (120 - i)"
proof (induction eng lw i s rule: poll_loop.induct)
  case (1 eng lw i s)
  show ?case
  proof (cases "120 \<le> i")
    case True
    then show ?thesis by (simp add: poll_loop.simps [of eng lw i s])
  next
    case False
    show ?thesis
    proof (cases "fst (poll_tick eng lw i s) = Inr Still_waiting")
      case True
      from "1.IH" [OF False refl True]
      have "ticks (snd (snd (poll_loop eng lw (Suc i) (snd (poll_tick eng lw i s)))))
          \<le> ticks (snd (snd (poll_tick eng lw i s))) + (120 - Suc i)" .
      with False True show ?thesis
        by (simp add: poll_loop.simps [of eng lw i s] Let_def poll_tick_ticks)
    next
      case stop: False
      with False show ?thesis
        by (simp add: poll_loop.simps [of eng lw i s] Let_def poll_tick_ticks)
    qed
  qed
qed

lemma poll_loop_ticks_ge:
  "i < 120 \<Longrightarrow> ticks (snd s) < ticks (snd (snd (poll_loop eng lw i s)))"
proof (induction eng lw i s rule: poll_loop.induct)
  case (1 eng lw i s)
  from "1.prems" have n: "\<not> 120 \<le> i" by simp
  show ?case
  proof (cases "fst (poll_tick eng lw i s) = Inr Still_waiting")
    case True
    show ?thesis
    proof (cases "Suc i < 120")
      case True
      from "1.IH" [OF n refl \<open>fst (poll_tick eng lw i s) = Inr Still_waiting\<close> True]
      have "ticks (snd (snd (poll_tick eng lw i s)))
          < ticks (snd (snd (poll_loop eng lw (Suc i) (snd (poll_tick eng lw i s)))))" .
      with n \<open>fst (poll_tick eng lw i s) = Inr Still_waiting\<close> show ?thesis
        by (simp add: poll_loop.simps [of eng lw i s] Let_def poll_tick_ticks)
    next
      case False
      then have "poll_loop eng lw (Suc i) (snd (poll_tick eng lw i s)) = (Inr Still_waiting, snd (poll_tick eng lw i s))"
        by (simp add: poll_loop.simps [of eng lw "Suc i"])
      with n \<open>fst (poll_tick eng lw i s) = Inr Still_waiting\<close> show ?thesis
        by (simp add: poll_loop.simps [of eng lw i s] Let_def poll_tick_ticks)
    qed
  next
    case False
    with n show ?thesis
      by (simp add: poll_loop.simps [of eng lw i s] Let_def poll_tick_ticks)
  qed
qed


lemma after_wait_ticks:
  "ticks (snd (snd (if t = Timed_out then (Inr Timed_out, s4)
      else then_do (page_screenshot eng s4) (\<lambda>_ s5.
           then_do (page_inner_text eng s5) (\<lambda>_ s6. (Inr Passed, s6)))))) = ticks (snd s4)"
proof -
  obtain r5 s5 where a: "page_screenshot eng s4 = (r5, s5)"
    by (cases "page_screenshot eng s4")
  with page_calls(4) [of eng s4] have s5: "snd s5 = snd s4 @ [Screenshot]" by simp
  obtain r6 s6 where b: "page_inner_text eng s5 = (r6, s6)"
    by (cases "page_inner_text eng s5")
  with page_calls(3) [of eng s5] have s6: "snd s6 = snd s5 @ [Inner_text_body]" by simp
  show ?thesis
    by (cases r5; cases r6) (simp_all add: then_do_def a b s5 s6 ticks_def)
qed

lemma try_body_classified:
  assumes "page_goto eng address s = (Inr (), s1)"
    and "page_wait_for_timeout eng 5000 s1 = (Inr (), s2)"
    and "page_inner_text eng s2 = (Inr page_text, s3)"
  shows "try_body eng lw address s =
     then_do (if challenged lw page_text then poll_loop eng lw 0 s3 else (Inr Passed, s3))
       (\<lambda>t s4.
          if t = Timed_out then (Inr Timed_out, s4)
          else then_do (page_screenshot eng s4) (\<lambda>_ s5.
               then_do (page_inner_text eng s5) (\<lambda>_ s6. (Inr Passed, s6))))"
    and "ticks (snd s3) = ticks (snd s)"
proof -
  show "try_body eng lw address s =
     then_do (if challenged lw page_text then poll_loop eng lw 0 s3 else (Inr Passed, s3))
       (\<lambda>t s4.
          if t = Timed_out then (Inr Timed_out, s4)
          else then_do (page_screenshot eng s4) (\<lambda>_ s5.
               then_do (page_inner_text eng s5) (\<lambda>_ s6. (Inr Passed, s6))))"
    by (simp add: try_body_def then_do_def assms)
  from page_calls(1) [of eng address s] assms(1) have "snd s1 = snd s @ [Goto address]" by simp
  moreover from page_calls(2) [of eng 5000 s1] assms(2)
  have "snd s2 = snd s1 @ [Wait_for_timeout 5000]" by simp
  moreover from page_calls(3) [of eng s2] assms(3)
  have "snd s3 = snd s2 @ [Inner_text_body]" by simp
  ultimately show "ticks (snd s3) = ticks (snd s)"
    by (simp add: ticks_def)
qed

lemma then_do_after_wait_ticks:
  "ticks (snd (snd (then_do m (\<lambda>t s4.
          if t = Timed_out then (Inr Timed_out, s4)
          else then_do (page_screenshot eng s4) (\<lambda>_ s5.
               then_do (page_inner_text eng s5) (\<lambda>_ s6. (Inr Passed, s6))))))) = ticks (snd (snd m))"
proof -
  obtain r s4 where m: "m = (r, s4)" by (cases m)
  show ?thesis
  proof (cases r)
    case (Inl e)
    with m show ?thesis by (simp add: then_do_def)
  next
    case (Inr t)
    with m after_wait_ticks [of t s4 eng] show ?thesis by (simp add: then_do_def)
  qed
qed

lemma try_body_ticks_le:
  "ticks (snd (snd (try_body eng lw address s))) \<le> ticks (snd s) + 120"
proof -
  obtain r1 s1 where a: "page_goto eng address s = (r1, s1)"
    by (cases "page_goto eng address s")
  with page_calls(1) [of eng address s] have s1: "snd s1 = snd s @ [Goto address]" by simp
  obtain r2 s2 where b: "page_wait_for_timeout eng 5000 s1 = (r2, s2)"
    by (cases "page_wait_for_timeout eng 5000 s1")
  with page_calls(2) [of eng 5000 s1] have s2: "snd s2 = snd s1 @ [Wait_for_timeout 5000]" by simp
  obtain r3 s3 where c: "page_inner_text eng s2 = (r3, s3)"
    by (cases "page_inner_text eng s2")
  with page_calls(3) [of eng s2] have s3: "snd s3 = snd s2 @ [Inner_text_body]" by simp
  show ?thesis
  proof (cases r1)
    case (Inl e)
    with a s1 show ?thesis by (simp add: try_body_def then_do_def ticks_def)
  next
    case r1: (Inr u1)
    show ?thesis
    proof (cases r2)
      case (Inl e)
      with a b r1 s1 s2 show ?thesis
        by (simp add: try_body_def then_do_def ticks_def)
    next
      case r2: (Inr u2)
      show ?thesis
      proof (cases r3)
        case (Inl e)
        with a b c r1 r2 s1 s2 s3 show ?thesis
          by (simp add: try_body_def then_do_def ticks_def)
      next
        case (Inr page_text)
        from a b c r1 r2 Inr have e: "page_goto eng address s = (Inr (), s1)"
          "page_wait_for_timeout eng 5000 s1 = (Inr (), s2)"
          "page_inner_text eng s2 = (Inr page_text, s3)"
          by simp_all
        have "ticks (snd (snd (try_body eng lw address s)))
            = ticks (snd (snd (if challenged lw page_text then poll_loop eng lw 0 s3 else (Inr Passed, s3))))"
          unfolding try_body_classified(1) [OF e] by (rule then_do_after_wait_ticks)
        also have "\<dots> \<le> ticks (snd s3) + 120"
          using poll_loop_ticks_le [of eng lw 0 s3] by simp
        finally show ?thesis using try_body_classified(2) [OF e] by simp
      qed
    qed
  qed
qed

lemma parse_product_ticks:
  "ticks (snd (snd (parse_product eng lw ud address s))) = ticks (snd (snd (try_body eng lw address s)))"
proof -
  obtain r s' where "try_body eng lw address s = (r, s')"
    by (cases "try_body eng lw address s")
  then show ?thesis
    by (cases r) (simp_all add: parse_product_def extract_data_ticks)
qed

lemma detected_captcha_iff:
  "detected_captcha lw text \<longleftrightarrow>
     (\<exists>indicator \<in> set captcha_indicators. \<exists>ps ss. lw text = ps @ indicator @ ss)"
  by (simp add: detected_captcha_def list_ex_iff contains_iff)

text \<open>
  C2. When the navigation, the settle delay and the reading of the body return, the wait
  for the operator is entered (a one-second tick takes place) exactly when the text is
  challenged, and that is exactly when its lower-cased form contains one of the phrases
  or its length is below 200. So a text of 199 characters enters the wait, a text of 200
  characters with no phrase does not, and a text whose lower-cased form contains
  \<open>captcha\<close> does, whatever its length.
\<close>

theorem challenged_iff_phrase_or_short:
  assumes "page_goto eng address s = (Inr (), s1)"
    and "page_wait_for_timeout eng 5000 s1 = (Inr (), s2)"
    and "page_inner_text eng s2 = (Inr page_text, s3)"
  shows "(ticks (snd s) < ticks (snd (snd (parse_product eng lw ud address s))) \<longleftrightarrow>
       challenged lw page_text) \<and>
    (challenged lw page_text \<longleftrightarrow>
       (\<exists>indicator \<in> set captcha_indicators. \<exists>ps ss. lw page_text = ps @ indicator @ ss) \<or>
       length page_text < 200) \<and>
    (length page_text = 199 \<longrightarrow>
       ticks (snd s) < ticks (snd (snd (parse_product eng lw ud address s)))) \<and>
    (length page_text = 200 \<and> \<not> detected_captcha lw page_text \<longrightarrow>
       ticks (snd (snd (parse_product eng lw ud address s))) = ticks (snd s)) \<and>
    ((\<exists>ps ss. lw page_text = ps @ ascii ''captcha'' @ ss) \<longrightarrow>
       ticks (snd s) < ticks (snd (snd (parse_product eng lw ud address s))))"
proof -
  let ?t = "ticks (snd (snd (parse_product eng lw ud address s)))"
  have eq: "?t = ticks (snd (snd (if challenged lw page_text then poll_loop eng lw 0 s3 else (Inr Passed, s3))))"
    unfolding parse_product_ticks try_body_classified(1) [OF assms]
    by (rule then_do_after_wait_ticks)
  have yes: "ticks (snd s) < ?t" if "challenged lw page_text"
    using that eq poll_loop_ticks_ge [of 0 s3 eng lw] try_body_classified(2) [OF assms] by simp
  have no: "?t = ticks (snd s)" if "\<not> challenged lw page_text"
    using that eq try_body_classified(2) [OF assms] by simp
  have sem: "challenged lw page_text \<longleftrightarrow>
       (\<exists>indicator \<in> set captcha_indicators. \<exists>ps ss. lw page_text = ps @ indicator @ ss) \<or>
       length page_text < 200"
    by (simp add: challenged_def detected_captcha_iff)
  have cap: "challenged lw page_text" if "\<exists>ps ss. lw page_text = ps @ ascii ''captcha'' @ ss"
  proof -
    have "ascii ''captcha'' \<in> set captcha_indicators" by (simp add: captcha_indicators_def)
    with that show ?thesis unfolding sem by blast
  qed
  have short: "challenged lw page_text" if "length page_text = 199"
    using that by (simp add: challenged_def)
  have long: "\<not> challenged lw page_text" if "length page_text = 200" "\<not> detected_captcha lw page_text"
    using that by (simp add: challenged_def)
  from yes no sem cap short long show ?thesis by (metis less_irrefl)
qed


lemma product_page_calls:
  "page_goto (product_page body pr) address (p, tr) = (Inr (), (p, tr @ [Goto address]))"
  "page_wait_for_timeout (product_page body pr) ms (p, tr) = (Inr (), (p, tr @ [Wait_for_timeout ms]))"
  "page_inner_text (product_page body pr) (p, tr) = (Inr body, (p, tr @ [Inner_text_body]))"
  "page_screenshot (product_page body pr) (p, tr) = (Inr (), (p, tr @ [Screenshot]))"
  by (simp_all add: page_goto_def page_wait_for_timeout_def page_inner_text_def
      page_screenshot_def perform_def product_page_def)

lemma not_contains:
  assumes "needle \<noteq> []" and "hd needle \<notin> set hay"
  shows "\<not> contains needle hay"
proof
  assume "contains needle hay"
  then obtain ps ss where "hay = ps @ needle @ ss" unfolding contains_iff by blast
  with assms(1) have "hd needle \<in> set hay" by (cases needle) simp_all
  with assms(2) show False by simp
qed

lemma filler_not_detected: "\<not> detected_captcha lower_basic (replicate n 120)"
proof -
  have low: "lower_basic (replicate n 120) = replicate n 120"
    by (simp add: lower_basic_def)
  have "\<not> contains indicator (replicate n 120)" if "indicator \<in> set captcha_indicators" for indicator
  proof (rule not_contains)
    from that show "indicator \<noteq> []" by (auto simp: captcha_indicators_def ascii_def)
    from that have "hd indicator \<noteq> 120" by (auto simp: captcha_indicators_def ascii_def)
    then show "hd indicator \<notin> set (replicate n 120)" by auto
  qed
  then show ?thesis by (simp add: detected_captcha_def list_ex_iff low)
qed

theorem challenged_iff_phrase_or_short_witness:
  "0 < ticks (snd (snd (parse_product (product_page (replicate 199 120) []) lower_basic
       ascii_digits_only example_url ((), [])))) \<and>
   ticks (snd (snd (parse_product (product_page (replicate 200 120) []) lower_basic
       ascii_digits_only example_url ((), [])))) = 0"
proof -
  have p1: "page_goto (product_page body []) example_url ((), []) = (Inr (), ((), [Goto example_url]))"
    and p2: "page_wait_for_timeout (product_page body []) 5000 ((), [Goto example_url])
      = (Inr (), ((), [Goto example_url, Wait_for_timeout 5000]))"
    and p3: "page_inner_text (product_page body []) ((), [Goto example_url, Wait_for_timeout 5000])
      = (Inr body, ((), [Goto example_url, Wait_for_timeout 5000, Inner_text_body]))" for body
    by (simp_all add: product_page_calls)
  note short = challenged_iff_phrase_or_short
    [OF p1 p2 p3, of "replicate 199 120" lower_basic ascii_digits_only]
  note long = challenged_iff_phrase_or_short
    [OF p1 p2 p3, of "replicate 200 120" lower_basic ascii_digits_only]
  from short have a: "0 < ticks (snd (snd (parse_product (product_page (replicate 199 120) [])
       lower_basic ascii_digits_only example_url ((), []))))"
    by (simp add: ticks_def)
  from long filler_not_detected [of 200]
  have b: "ticks (snd (snd (parse_product (product_page (replicate 200 120) []) lower_basic
       ascii_digits_only example_url ((), [])))) = 0"
    by (simp add: ticks_def)
  from a b show ?thesis ..
qed

lemma poll_tick_stays:
  assumes "page_wait_for_timeout eng 1000 s = (Inr (), s1)"
    and "page_inner_text eng s1 = (Inr current_text, s2)"
    and "\<not> captcha_passed lw current_text"
  shows "poll_tick eng lw i s = (Inr (if 119 \<le> i then Timed_out else Still_waiting), s2)"
  by (simp add: poll_tick_def then_do_def assms)

lemma stays_challenged_times_out:
  "stays_challenged eng lw n s \<Longrightarrow> 0 < n \<Longrightarrow> i + n = 120 \<Longrightarrow>
     fst (poll_loop eng lw i s) = Inr Timed_out \<and>
     ticks (snd (snd (poll_loop eng lw i s))) = ticks (snd s) + n"
proof (induction n arbitrary: i s)
  case 0
  then show ?case by simp
next
  case (Suc n)
  from Suc.prems(1) obtain s1 current_text s2
    where w: "page_wait_for_timeout eng 1000 s = (Inr (), s1)"
      and t: "page_inner_text eng s1 = (Inr current_text, s2)"
      and np: "\<not> captcha_passed lw current_text"
      and rest: "stays_challenged eng lw n s2"
    by (auto split: prod.splits sum.splits)
  note tick = poll_tick_stays [OF w t np, of i]
  from Suc.prems(3) have i: "\<not> 120 \<le> i" by simp
  have tk: "ticks (snd s2) = Suc (ticks (snd s))"
    using poll_tick_ticks [of eng lw i s] tick by simp
  show ?case
  proof (cases "n = 0")
    case True
    with Suc.prems(3) have "119 \<le> i" by simp
    with tick i tk True show ?thesis
      by (simp add: poll_loop.simps [of eng lw i s] Let_def)
  next
    case False
    with Suc.prems(3) have "\<not> 119 \<le> i" by simp
    with tick i have "poll_loop eng lw i s = poll_loop eng lw (Suc i) s2"
      by (simp add: poll_loop.simps [of eng lw i s] Let_def)
    moreover from False Suc.prems(3) Suc.IH [OF rest, of "Suc i"]
    have "fst (poll_loop eng lw (Suc i) s2) = Inr Timed_out \<and>
      ticks (snd (snd (poll_loop eng lw (Suc i) s2))) = ticks (snd s2) + n"
      by simp
    ultimately show ?thesis using tk by simp
  qed
qed

text \<open>
  C6. No run of \<open>parse_product\<close> has more than 120 one-second ticks. When the page is
  challenged at the classification and stays so for 120 passes of the loop,
  \<open>parse_product\<close> returns the error dict of the CAPTCHA timeout right after the loop,
  and the run has exactly 120 ticks.
\<close>

theorem wait_ends_after_120_ticks:
  "ticks (snd (snd (parse_product eng lw ud address s))) \<le> ticks (snd s) + 120 \<and>
   (page_goto eng address s = (Inr (), s1) \<and>
    page_wait_for_timeout eng 5000 s1 = (Inr (), s2) \<and>
    page_inner_text eng s2 = (Inr page_text, s3) \<and>
    challenged lw page_text \<and> stays_challenged eng lw 120 s3 \<longrightarrow>
      parse_product eng lw ud address s
        = (Inr (Error_dict CAPTCHA_timeout), snd (poll_loop eng lw 0 s3)) \<and>
      ticks (snd (snd (parse_product eng lw ud address s))) = ticks (snd s) + 120)"
proof -
  have bound: "ticks (snd (snd (parse_product eng lw ud address s))) \<le> ticks (snd s) + 120"
    unfolding parse_product_ticks by (rule try_body_ticks_le)
  have timeout: "parse_product eng lw ud address s
        = (Inr (Error_dict CAPTCHA_timeout), snd (poll_loop eng lw 0 s3)) \<and>
      ticks (snd (snd (parse_product eng lw ud address s))) = ticks (snd s) + 120"
    if a: "page_goto eng address s = (Inr (), s1)"
      "page_wait_for_timeout eng 5000 s1 = (Inr (), s2)"
      "page_inner_text eng s2 = (Inr page_text, s3)"
    and c: "challenged lw page_text" and st: "stays_challenged eng lw 120 s3"
  proof -
    from stays_challenged_times_out [OF st, of 0]
    have l: "fst (poll_loop eng lw 0 s3) = Inr Timed_out"
      and k: "ticks (snd (snd (poll_loop eng lw 0 s3))) = ticks (snd s3) + 120"
      by simp_all
    obtain s4 where p: "poll_loop eng lw 0 s3 = (Inr Timed_out, s4)"
      using l by (cases "poll_loop eng lw 0 s3") simp
    have "try_body eng lw address s = (Inr Timed_out, s4)"
      unfolding try_body_classified(1) [OF a] using c p by (simp add: then_do_def)
    then have "parse_product eng lw ud address s = (Inr (Error_dict CAPTCHA_timeout), s4)"
      by (simp add: parse_product_def)
    with p k try_body_classified(2) [OF a] show ?thesis by simp
  qed
  from bound timeout show ?thesis by blast
qed

lemma captcha_wall_stays:
  "stays_challenged (product_page (ascii ''captcha'') []) lower_basic n (p, tr)"
  by (induction n arbitrary: tr) (simp_all add: product_page_calls captcha_passed_def ascii_def)

lemma captcha_text_challenged: "challenged lower_basic (ascii ''captcha'')"
proof -
  have "contains (ascii ''captcha'') (lower_basic (ascii ''captcha''))"
    by (simp add: lower_basic_def ascii_def)
  then show ?thesis
    by (simp add: challenged_def detected_captcha_def captcha_indicators_def)
qed

theorem wait_ends_after_120_ticks_witness:
  "fst (parse_product (product_page (ascii ''captcha'') []) lower_basic ascii_digits_only
       example_url ((), [])) = Inr (Error_dict CAPTCHA_timeout) \<and>
   ticks (snd (snd (parse_product (product_page (ascii ''captcha'') []) lower_basic
       ascii_digits_only example_url ((), [])))) = 120"
proof -
  let ?eng = "product_page (ascii ''captcha'') []"
  let ?s3 = "((), [Goto example_url, Wait_for_timeout 5000, Inner_text_body])"
  have pre: "page_goto ?eng example_url ((), []) = (Inr (), ((), [Goto example_url])) \<and>
    page_wait_for_timeout ?eng 5000 ((), [Goto example_url])
      = (Inr (), ((), [Goto example_url, Wait_for_timeout 5000])) \<and>
    page_inner_text ?eng ((), [Goto example_url, Wait_for_timeout 5000])
      = (Inr (ascii ''captcha''), ?s3) \<and>
    challenged lower_basic (ascii ''captcha'') \<and> stays_challenged ?eng lower_basic 120 ?s3"
    using captcha_wall_stays [of 120 "()" "[Goto example_url, Wait_for_timeout 5000, Inner_text_body]"]
      captcha_text_challenged
    by (simp add: product_page_calls)
  from wait_ends_after_120_ticks [of ?eng lower_basic ascii_digits_only example_url "((), [])"
      "((), [Goto example_url])" "((), [Goto example_url, Wait_for_timeout 5000])"
      "ascii ''captcha''" ?s3] pre
  have e: "parse_product ?eng lower_basic ascii_digits_only example_url ((), [])
        = (Inr (Error_dict CAPTCHA_timeout), snd (poll_loop ?eng lower_basic 0 ?s3))"
    and k: "ticks (snd (snd (parse_product ?eng lower_basic ascii_digits_only example_url ((), []))))
        = ticks (snd (((), [])::unit session)) + 120"
    by blast+
  from e have "fst (parse_product ?eng lower_basic ascii_digits_only example_url ((), []))
      = Inr (Error_dict CAPTCHA_timeout)"
    by simp
  moreover from k
  have "ticks (snd (snd (parse_product ?eng lower_basic ascii_digits_only example_url ((), [])))) = 120"
    by (simp add: ticks_def)
  ultimately show ?thesis ..
qed

text \<open>
  C7. A pass of the loop whose text holds no phrase: it ends the wait as passed exactly
  when the text is longer than 500 characters (and the further wait returns); then the
  loop ends with this pass, and the wait of two seconds is the last call made. With 500
  characters or fewer the pass asks for the next one (or, at the last pass, times out).
  So 480 clean characters stay in the wait and 501 leave it.
\<close>

theorem wait_exit_needs_more_than_500:
  assumes "i < 120"
    and "page_wait_for_timeout eng 1000 s = (Inr (), s1)"
    and "page_inner_text eng s1 = (Inr current_text, s2)"
    and "\<not> detected_captcha lw current_text"
  shows "(fst (poll_tick eng lw i s) = Inr Passed \<longleftrightarrow>
        500 < length current_text \<and> fst (page_wait_for_timeout eng 2000 s2) = Inr ()) \<and>
    (500 < length current_text \<longrightarrow>
        poll_tick eng lw i s = then_do (page_wait_for_timeout eng 2000 s2) (\<lambda>_ s3. (Inr Passed, s3)) \<and>
        poll_loop eng lw i s = poll_tick eng lw i s \<and>
        snd (snd (poll_loop eng lw i s))
          = snd s @ [Wait_for_timeout 1000, Inner_text_body, Wait_for_timeout 2000]) \<and>
    (length current_text \<le> 500 \<longrightarrow>
        poll_tick eng lw i s = (Inr (if i = 119 then Timed_out else Still_waiting), s2) \<and>
        (i < 119 \<longrightarrow> poll_loop eng lw i s = poll_loop eng lw (Suc i) s2)) \<and>
    (length current_text = 480 \<and> i < 119 \<longrightarrow> poll_tick eng lw i s = (Inr Still_waiting, s2)) \<and>
    (length current_text = 501 \<and> page_wait_for_timeout eng 2000 s2 = (Inr (), s3) \<longrightarrow>
        poll_loop eng lw i s = (Inr Passed, s3))"
proof -
  from page_calls(2) [of eng 1000 s] assms(2) have s1: "snd s1 = snd s @ [Wait_for_timeout 1000]"
    by simp
  from page_calls(3) [of eng s1] assms(3) have s2: "snd s2 = snd s1 @ [Inner_text_body]"
    by simp
  have big: "poll_tick eng lw i s = then_do (page_wait_for_timeout eng 2000 s2) (\<lambda>_ s3. (Inr Passed, s3))"
    if "500 < length current_text"
    using that assms by (simp add: poll_tick_def then_do_def captcha_passed_def)
  have small: "poll_tick eng lw i s = (Inr (if i = 119 then Timed_out else Still_waiting), s2)"
    if "length current_text \<le> 500"
    using that assms poll_tick_stays [OF assms(2,3), of lw i] by (auto simp: captcha_passed_def)
  have fst_big: "fst (poll_tick eng lw i s) \<noteq> Inr Still_waiting" if "500 < length current_text"
    unfolding big [OF that]
    by (cases "page_wait_for_timeout eng 2000 s2"; cases "fst (page_wait_for_timeout eng 2000 s2)")
       (simp_all add: then_do_def)
  have loop_big: "poll_loop eng lw i s = poll_tick eng lw i s" if "500 < length current_text"
    using assms(1) fst_big [OF that] by (simp add: poll_loop.simps [of eng lw i s] Let_def)
  have calls_big: "snd (snd (poll_tick eng lw i s))
      = snd s @ [Wait_for_timeout 1000, Inner_text_body, Wait_for_timeout 2000]"
    if "500 < length current_text"
    unfolding big [OF that] using page_calls(2) [of eng 2000 s2] s1 s2
    by (cases "page_wait_for_timeout eng 2000 s2"; cases "fst (page_wait_for_timeout eng 2000 s2)")
       (simp_all add: then_do_def)
  have loop_small: "poll_loop eng lw i s = poll_loop eng lw (Suc i) s2"
    if "length current_text \<le> 500" "i < 119"
    using that small [OF that(1)] by (simp add: poll_loop.simps [of eng lw i s] Let_def)
  have iff: "fst (poll_tick eng lw i s) = Inr Passed \<longleftrightarrow>
        500 < length current_text \<and> fst (page_wait_for_timeout eng 2000 s2) = Inr ()"
  proof (cases "500 < length current_text")
    case True
    then show ?thesis unfolding big [OF True]
      by (cases "page_wait_for_timeout eng 2000 s2"; cases "fst (page_wait_for_timeout eng 2000 s2)")
         (simp_all add: then_do_def)
  next
    case False
    then show ?thesis using small [of] by simp
  qed
  have last: "poll_loop eng lw i s = (Inr Passed, s3)"
    if "length current_text = 501" "page_wait_for_timeout eng 2000 s2 = (Inr (), s3)"
    using that loop_big big by (simp add: then_do_def)
  from iff big loop_big calls_big small loop_small last show ?thesis
    by (simp add: loop_big)
qed

theorem wait_exit_needs_more_than_500_witness:
  "poll_loop (product_page (replicate 501 120) []) lower_basic 0 ((), [])
     = (Inr Passed, ((), [Wait_for_timeout 1000, Inner_text_body, Wait_for_timeout 2000])) \<and>
   poll_tick (product_page (replicate 480 120) []) lower_basic 0 ((), [])
     = (Inr Still_waiting, ((), [Wait_for_timeout 1000, Inner_text_body]))"
proof -
  let ?s1 = "((), [Wait_for_timeout 1000])"
  let ?s2 = "((), [Wait_for_timeout 1000, Inner_text_body])"
  let ?s3 = "((), [Wait_for_timeout 1000, Inner_text_body, Wait_for_timeout 2000])"
  have p1: "page_wait_for_timeout (product_page body []) 1000 ((), []) = (Inr (), ?s1)"
    and p2: "page_inner_text (product_page body []) ?s1 = (Inr body, ?s2)"
    and p3: "page_wait_for_timeout (product_page body []) 2000 ?s2 = (Inr (), ?s3)" for body
    by (simp_all add: product_page_calls)
  have z: "(0::nat) < 120" by simp
  note big = wait_exit_needs_more_than_500 [OF z p1 p2 filler_not_detected, of 501 ?s3]
  note small = wait_exit_needs_more_than_500 [OF z p1 p2 filler_not_detected, of 480 ?s3]
  from big p3 [of "replicate 501 120"]
  have a: "poll_loop (product_page (replicate 501 120) []) lower_basic 0 ((), []) = (Inr Passed, ?s3)"
    by (simp add: then_do_def)
  from small
  have b: "poll_tick (product_page (replicate 480 120) []) lower_basic 0 ((), [])
      = (Inr Still_waiting, ?s2)"
    by simp
  from a b show ?thesis ..
qed


subsection \<open>A navigation that raises\<close>

lemma extract_data_no_error_dict:
  "fst (extract_data eng ud address s) \<noteq> Inr (Error_dict err)"
  by (simp add: extract_data_def Let_def split_beta then_do_def split: sum.splits prod.splits)

text \<open>
  C3, as claimed, fails: on the page whose navigation raises the timeout,
  \<open>parse_product\<close> goes on to the nine extractions and the final pause and returns the
  dict of the product, with no \<open>error\<close> key.
\<close>

theorem navigation_timeout_goes_on_counterexample:
  "fst (goto unreachable_page example_url ()) = Inl PlaywrightTimeoutError \<and>
   parse_product unreachable_page lower_basic ascii_digits_only example_url ((), [])
     = (Inr (Data_dict \<lparr>url = example_url, title = [], price = [], old_price = [],
          discount = [], rating = [], reviews = [], brand = [], seller = [],
          description = [], price_number = None\<rparr>),
        ((), Goto example_url # map Query_selector product_selectors @ [Wait_for_timeout 5000]))"
  by (simp add: unreachable_page_def product_page_def parse_product_def try_body_def
      page_goto_def page_wait_for_timeout_def perform_def then_do_def extract_data_def
      extract_text_def clean_price_def strip_def product_selectors_def)

text \<open>
  C3, amended. When the navigation raises: for a timeout, \<open>parse_product\<close> skips the
  check for a challenge and runs the extraction from there (the nine selectors are
  queried right after the navigation), and whatever dict it returns has no \<open>error\<close>
  key; for any other exception it returns the error dict made from that exception at
  once, with no further call on the page.
\<close>

theorem navigation_timeout_goes_on_to_extraction:
  assumes "page_goto eng address s = (Inl e, s1)"
  shows "(e = PlaywrightTimeoutError \<longrightarrow>
       parse_product eng lw ud address s = extract_data eng ud address s1 \<and>
       (\<forall>r. fst (parse_product eng lw ud address s) = Inr r \<longrightarrow> \<not> has_error_field r) \<and>
       (\<exists>w. snd (snd (parse_product eng lw ud address s))
            = snd s @ Goto address # map Query_selector product_selectors @ w \<and>
          (w = [] \<or> w = [Wait_for_timeout 5000]))) \<and>
    (e \<noteq> PlaywrightTimeoutError \<longrightarrow>
       parse_product eng lw ud address s = (Inr (Error_dict (Load_failed e)), s1) \<and>
       snd s1 = snd s @ [Goto address])"
proof -
  from page_calls(1) [of eng address s] assms have s1: "snd s1 = snd s @ [Goto address]"
    by simp
  from assms have body: "try_body eng lw address s = (Inl e, s1)"
    by (simp add: try_body_def then_do_def)
  have other: "parse_product eng lw ud address s = (Inr (Error_dict (Load_failed e)), s1)"
    if "e \<noteq> PlaywrightTimeoutError"
    using that body by (simp add: parse_product_def)
  have go: "parse_product eng lw ud address s = extract_data eng ud address s1"
    if "e = PlaywrightTimeoutError"
    using that body by (simp add: parse_product_def)
  have noerr: "\<not> has_error_field r" if "fst (extract_data eng ud address s1) = Inr r" for r
    using that extract_data_no_error_dict [of eng ud address s1] by (cases r) auto
  obtain w where "snd (snd (extract_data eng ud address s1))
      = snd s1 @ map Query_selector product_selectors @ w"
    and "w = [] \<or> w = [Wait_for_timeout 5000]"
    using extract_data_calls by blast
  with s1 have calls: "\<exists>w. snd (snd (extract_data eng ud address s1))
      = snd s @ Goto address # map Query_selector product_selectors @ w \<and>
      (w = [] \<or> w = [Wait_for_timeout 5000])"
    by simp
  from other go noerr calls s1 show ?thesis by simp
qed

theorem navigation_timeout_goes_on_to_extraction_witness:
  "\<exists>d. fst (parse_product unreachable_page lower_basic ascii_digits_only example_url ((), []))
        = Inr (Data_dict d) \<and>
      \<not> has_error_field (Data_dict d) \<and>
      parse_product unreachable_page lower_basic ascii_digits_only example_url ((), [])
        = extract_data unreachable_page ascii_digits_only example_url ((), [Goto example_url])"
proof -
  have g: "page_goto unreachable_page example_url ((), [])
      = (Inl PlaywrightTimeoutError, ((), [Goto example_url]))"
    by (simp add: page_goto_def perform_def unreachable_page_def product_page_def)
  note t = navigation_timeout_goes_on_to_extraction [OF g, of lower_basic ascii_digits_only]
  from t have e: "parse_product unreachable_page lower_basic ascii_digits_only example_url ((), [])
      = extract_data unreachable_page ascii_digits_only example_url ((), [Goto example_url])"
    by simp
  have "\<exists>d. fst (extract_data unreachable_page ascii_digits_only example_url
      ((), [Goto example_url])) = Inr (Data_dict d)"
    by (simp add: unreachable_page_def product_page_def page_wait_for_timeout_def perform_def
        then_do_def extract_data_def extract_text_def clean_price_def strip_def
        product_selectors_def)
  then obtain d where d: "fst (parse_product unreachable_page lower_basic ascii_digits_only
      example_url ((), [])) = Inr (Data_dict d)"
    unfolding e by blast
  with t have "\<not> has_error_field (Data_dict d)" by blast
  with d e show ?thesis by blast
qed

subsection \<open>The numeric price\<close>

lemma those_map_Some: "those (map Some ds) = Some ds"
  by (induction ds) simp_all

lemma dropWhile_none: "list_all (\<lambda>c. \<not> P c) t \<Longrightarrow> dropWhile P t = t"
  by (cases t) simp_all

lemma digit_not_int_space: "decimal ud c \<noteq> None \<Longrightarrow> \<not> int_space c"
  by (auto simp: decimal_def int_space_def isspace_def split: if_splits)

lemma py_int_digits:
  assumes "map (decimal ud) t = map Some ds" and "ds \<noteq> []" and "length ds \<le> 4300"
  shows "py_int ud t = Inr (int (foldl (\<lambda>a d. 10 * a + d) 0 ds))"
proof -
  have dig: "decimal ud c \<noteq> None" if "c \<in> set t" for c
  proof -
    from that have "decimal ud c \<in> set (map (decimal ud) t)" by simp
    with assms(1) show ?thesis by auto
  qed
  have ns: "list_all (\<lambda>c. \<not> int_space c) t"
    unfolding list_all_iff
  proof
    fix c assume "c \<in> set t"
    then have "decimal ud c \<noteq> None" by (rule dig)
    then show "\<not> int_space c" by (rule digit_not_int_space)
  qed
  then have "list_all (\<lambda>c. \<not> int_space c) (rev t)" by (simp add: list_all_iff)
  with ns have "rev (dropWhile int_space (rev (dropWhile int_space t))) = t"
    by (simp add: dropWhile_none)
  with assms show ?thesis
    by (simp add: py_int_def those_map_Some int_max_str_digits_def)
qed

lemma re_search_first_run:
  assumes "list_all (\<lambda>c. \<not> digit_or_space ud c) pre"
    and "run \<noteq> []" and "list_all (digit_or_space ud) run"
    and "case rest of [] \<Rightarrow> True | c # cs \<Rightarrow> \<not> digit_or_space ud c"
  shows "re_search_digits_spaces ud (pre @ run @ rest) = Some run"
proof -
  from assms(1) have "dropWhile (\<lambda>c. \<not> digit_or_space ud c) (pre @ run @ rest)
      = dropWhile (\<lambda>c. \<not> digit_or_space ud c) (run @ rest)"
    by (simp add: list_all_iff dropWhile_append2)
  also from assms(2,3) have "\<dots> = run @ rest"
    by (cases run) simp_all
  finally have d: "dropWhile (\<lambda>c. \<not> digit_or_space ud c) (pre @ run @ rest) = run @ rest" .
  from assms(4) have "takeWhile (digit_or_space ud) rest = []"
    by (cases rest) simp_all
  with assms(3) have t: "takeWhile (digit_or_space ud) (run @ rest) = run"
    by (simp add: list_all_iff takeWhile_append2)
  from assms(2) obtain c cs where "run @ rest = c # cs" by (cases run) auto
  with d t show ?thesis by (simp add: re_search_digits_spaces_def)
qed

lemma re_search_none:
  "list_all (\<lambda>c. \<not> digit_or_space ud c) pr \<Longrightarrow> re_search_digits_spaces ud pr = None"
proof -
  assume "list_all (\<lambda>c. \<not> digit_or_space ud c) pr"
  then have d: "dropWhile (\<lambda>c. \<not> digit_or_space ud c) pr = []"
    by (simp add: list_all_iff)
  show ?thesis unfolding re_search_digits_spaces_def d by simp
qed

lemma extract_data_price_number:
  "fst (extract_data eng ud address s) = Inr (Data_dict d) \<Longrightarrow>
     clean_price ud (price d) = Inr (price_number d)"
  by (auto simp: extract_data_def Let_def split_beta then_do_def split: sum.splits prod.splits)

lemma parse_product_price_number:
  assumes "fst (parse_product eng lw ud address s) = Inr (Data_dict d)"
  shows "clean_price ud (price d) = Inr (price_number d)"
proof -
  obtain r s' where t: "try_body eng lw address s = (r, s')"
    by (cases "try_body eng lw address s")
  from assms t have "fst (extract_data eng ud address s') = Inr (Data_dict d)"
    by (cases r) (auto simp: parse_product_def split: if_splits)
  then show ?thesis by (rule extract_data_price_number)
qed

text \<open>
  What the cleaning does with the first maximal run of digits and whitespace: when the
  run holds only spaces (U+0020) and between 1 and 4300 decimal digits, the numeric
  price is the number that the digits of the run spell, whatever follows the run. A
  price text with no digit and no whitespace gets no numeric price. And whenever
  \<open>parse_product\<close> returns the dict of a product, its numeric price is the cleaning
  of its price text.
\<close>

lemma clean_price_first_run:
  "(list_all (\<lambda>c. \<not> digit_or_space ud c) pre \<and>
    list_all (\<lambda>c. c = 32 \<or> decimal ud c \<noteq> None) run \<and>
    (case rest of [] \<Rightarrow> True | c # cs \<Rightarrow> \<not> digit_or_space ud c) \<and>
    map (decimal ud) (filter (\<lambda>c. c \<noteq> 32) run) = map Some ds \<and>
    ds \<noteq> [] \<and> length ds \<le> 4300 \<longrightarrow>
      clean_price ud (pre @ run @ rest) = Inr (Some (int (foldl (\<lambda>a d. 10 * a + d) 0 ds)))) \<and>
   (list_all (\<lambda>c. \<not> digit_or_space ud c) pr \<longrightarrow> clean_price ud pr = Inr None) \<and>
   (ud 8381 = None \<longrightarrow> clean_price ud [49, 50, 32, 51, 52, 53, 32, 8381] = Inr (Some 12345)) \<and>
   (fst (parse_product eng lw ud address s) = Inr (Data_dict d) \<longrightarrow>
      clean_price ud (price d) = Inr (price_number d))"
proof -
  have first: "clean_price ud (pre @ run @ rest) = Inr (Some (int (foldl (\<lambda>a d. 10 * a + d) 0 ds)))"
    if a: "list_all (\<lambda>c. \<not> digit_or_space ud c) pre"
      and b: "list_all (\<lambda>c. c = 32 \<or> decimal ud c \<noteq> None) run"
      and c: "case rest of [] \<Rightarrow> True | c # cs \<Rightarrow> \<not> digit_or_space ud c"
      and d: "map (decimal ud) (filter (\<lambda>c. c \<noteq> 32) run) = map Some ds"
      and e: "ds \<noteq> []" "length ds \<le> 4300"
    for pre run rest ds
  proof -
    from d e have run: "run \<noteq> []" by auto
    from b have all: "list_all (digit_or_space ud) run"
      by (auto simp: list_all_iff digit_or_space_def isspace_def)
    from re_search_first_run [OF a run all c]
    have m: "re_search_digits_spaces ud (pre @ run @ rest) = Some run" .
    from run have "pre @ run @ rest \<noteq> []" by simp
    with m py_int_digits [OF d e] show ?thesis
      by (simp add: clean_price_def)
  qed
  have none: "clean_price ud pr = Inr None" if "list_all (\<lambda>c. \<not> digit_or_space ud c) pr"
    using re_search_none [OF that] by (simp add: clean_price_def)
  have rouble: "clean_price ud [49, 50, 32, 51, 52, 53, 32, 8381] = Inr (Some 12345)"
    if "ud 8381 = None"
    using that first [of "[]" "[49, 50, 32, 51, 52, 53, 32]" "[8381]" "[1, 2, 3, 4, 5]"]
    by (simp add: digit_or_space_def decimal_def isspace_def)
  from first [of pre run rest ds] none rouble parse_product_price_number [of eng lw ud address s d]
  show ?thesis by blast
qed

text \<open>
  A whole run on a page that is not challenged and shows a price: the extraction is
  reached, and the cleaning of the stripped price text decides between the dict of the
  product and the ValueError that leaves \<open>parse_product\<close>.
\<close>

lemma product_page_extract_text:
  "extract_text (product_page body pr) selector [] (p, tr)
     = (if selector = ''.tsHeadline500Medium'' then strip pr else [], (p, tr @ [Query_selector selector]))"
  by (simp add: extract_text_def perform_def product_page_def)

lemma product_page_run:
  "parse_product (product_page (replicate 600 120) pr) lower_basic ud example_url ((), [])
     = (case clean_price ud (strip pr) of
          Inl e \<Rightarrow>
            (Inl e,
             ((), [Goto example_url, Wait_for_timeout 5000, Inner_text_body, Screenshot,
                   Inner_text_body] @ map Query_selector product_selectors))
        | Inr n \<Rightarrow>
            (Inr (Data_dict \<lparr>url = example_url, title = [], price = strip pr, old_price = [],
               discount = [], rating = [], reviews = [], brand = [], seller = [],
               description = [], price_number = n\<rparr>),
             ((), [Goto example_url, Wait_for_timeout 5000, Inner_text_body, Screenshot,
                   Inner_text_body] @ map Query_selector product_selectors
                  @ [Wait_for_timeout 5000])))"
proof -
  have c: "\<not> challenged lower_basic (replicate 600 120)"
    by (simp add: challenged_def filler_not_detected)
  have t: "try_body (product_page (replicate 600 120) pr) lower_basic example_url ((), [])
    = (Inr Passed, ((), [Goto example_url, Wait_for_timeout 5000, Inner_text_body, Screenshot,
         Inner_text_body]))"
    by (simp add: try_body_def then_do_def product_page_calls c)
  show ?thesis
    by (cases "clean_price ud (strip pr)")
       (simp_all add: parse_product_def t extract_data_def product_page_extract_text then_do_def
          product_page_calls product_selectors_def)
qed

text \<open>The scenario of the specification: the price 12 345 with the rouble sign gives 12345.\<close>

lemma rouble_page_run:
  "parse_product (product_page (replicate 600 120) [49, 50, 32, 51, 52, 53, 32, 8381]) lower_basic
      ascii_digits_only example_url ((), [])
     = (Inr (Data_dict \<lparr>url = example_url, title = [], price = [49, 50, 32, 51, 52, 53, 32, 8381],
          old_price = [], discount = [], rating = [], reviews = [], brand = [], seller = [],
          description = [], price_number = Some 12345\<rparr>),
        ((), [Goto example_url, Wait_for_timeout 5000, Inner_text_body, Screenshot, Inner_text_body]
             @ map Query_selector product_selectors @ [Wait_for_timeout 5000]))"
proof -
  have s: "strip [49, 50, 32, 51, 52, 53, 32, 8381] = [49, 50, 32, 51, 52, 53, 32, 8381]"
    by (simp add: strip_def isspace_def)
  have p: "clean_price ascii_digits_only [49, 50, 32, 51, 52, 53, 32, 8381] = Inr (Some 12345)"
    by (simp add: clean_price_def re_search_digits_spaces_def digit_or_space_def
      decimal_def isspace_def py_int_def int_space_def int_max_str_digits_def
      ascii_digits_only_def)
  show ?thesis by (simp add: product_page_run s p)
qed

text \<open>
  C8. The numeric price is not what is left of the price text once every character
  that is neither digit nor whitespace is stripped. On a page that is not challenged:
  for the price text \<open>2x 500\<close> the code returns the numeric price 2 (the first run of
  digits and whitespace only), where the stripped text gives 2500; for the price
  12 345 grouped with a no-break space (U+00A0) and followed by the rouble sign, the
  \<open>int\<close> call raises ValueError and \<open>parse_product\<close> raises instead of returning, where
  the stripped text gives 12345; and for the text of a product that is out of stock (in
  Russian, three words and no digit) the first run is a lone space and
  \<open>parse_product\<close> raises ValueError as well.
\<close>

theorem price_number_first_run_or_raise:
  "parse_product (product_page (replicate 600 120) (ascii ''2x 500'')) lower_basic
      ascii_digits_only example_url ((), [])
     = (Inr (Data_dict \<lparr>url = example_url, title = [], price = ascii ''2x 500'',
          old_price = [], discount = [], rating = [], reviews = [], brand = [], seller = [],
          description = [], price_number = Some 2\<rparr>),
        ((), [Goto example_url, Wait_for_timeout 5000, Inner_text_body, Screenshot, Inner_text_body]
             @ map Query_selector product_selectors @ [Wait_for_timeout 5000])) \<and>
   spec_price_number ascii_digits_only (ascii ''2x 500'') = Inr 2500 \<and>
   fst (parse_product (product_page (replicate 600 120) [49, 50, 160, 51, 52, 53, 32, 8381])
      lower_basic ascii_digits_only example_url ((), [])) = Inl ValueError \<and>
   spec_price_number ascii_digits_only [49, 50, 160, 51, 52, 53, 32, 8381] = Inr 12345 \<and>
   fst (parse_product (product_page (replicate 600 120)
        [1053, 1077, 1090, 32, 1074, 32, 1085, 1072, 1083, 1080, 1095, 1080, 1080])
      lower_basic ascii_digits_only example_url ((), [])) = Inl ValueError"
proof -
  have s1: "strip (ascii ''2x 500'') = ascii ''2x 500''"
    by (simp add: strip_def isspace_def ascii_def)
  have p1: "clean_price ascii_digits_only (ascii ''2x 500'') = Inr (Some 2)"
    by (simp add: ascii_def clean_price_def re_search_digits_spaces_def digit_or_space_def
        decimal_def isspace_def py_int_def int_space_def int_max_str_digits_def
        ascii_digits_only_def)
  have a: "parse_product (product_page (replicate 600 120) (ascii ''2x 500'')) lower_basic
      ascii_digits_only example_url ((), [])
     = (Inr (Data_dict \<lparr>url = example_url, title = [], price = ascii ''2x 500'',
          old_price = [], discount = [], rating = [], reviews = [], brand = [], seller = [],
          description = [], price_number = Some 2\<rparr>),
        ((), [Goto example_url, Wait_for_timeout 5000, Inner_text_body, Screenshot, Inner_text_body]
             @ map Query_selector product_selectors @ [Wait_for_timeout 5000]))"
    by (simp add: product_page_run s1 p1)
  have b: "spec_price_number ascii_digits_only (ascii ''2x 500'') = Inr 2500"
    by (simp add: ascii_def spec_price_number_def digit_or_space_def decimal_def isspace_def
        py_int_def int_space_def int_max_str_digits_def ascii_digits_only_def)
  have s2: "strip [49, 50, 160, 51, 52, 53, 32, 8381] = [49, 50, 160, 51, 52, 53, 32, 8381]"
    by (simp add: strip_def isspace_def)
  have p2: "clean_price ascii_digits_only [49, 50, 160, 51, 52, 53, 32, 8381] = Inl ValueError"
    by (simp add: clean_price_def re_search_digits_spaces_def digit_or_space_def
        decimal_def isspace_def py_int_def int_space_def int_max_str_digits_def
        ascii_digits_only_def)
  have c: "fst (parse_product (product_page (replicate 600 120) [49, 50, 160, 51, 52, 53, 32, 8381])
      lower_basic ascii_digits_only example_url ((), [])) = Inl ValueError"
    by (simp add: product_page_run s2 p2)
  have d: "spec_price_number ascii_digits_only [49, 50, 160, 51, 52, 53, 32, 8381] = Inr 12345"
    by (simp add: spec_price_number_def digit_or_space_def decimal_def isspace_def
        py_int_def int_space_def int_max_str_digits_def ascii_digits_only_def)
  have s3: "strip [1053, 1077, 1090, 32, 1074, 32, 1085, 1072, 1083, 1080, 1095, 1080, 1080]
      = [1053, 1077, 1090, 32, 1074, 32, 1085, 1072, 1083, 1080, 1095, 1080, 1080]"
    by (simp add: strip_def isspace_def)
  have p3: "clean_price ascii_digits_only
      [1053, 1077, 1090, 32, 1074, 32, 1085, 1072, 1083, 1080, 1095, 1080, 1080] = Inl ValueError"
    by (simp add: clean_price_def re_search_digits_spaces_def digit_or_space_def
        decimal_def isspace_def py_int_def int_space_def int_max_str_digits_def
        ascii_digits_only_def)
  have e: "fst (parse_product (product_page (replicate 600 120)
        [1053, 1077, 1090, 32, 1074, 32, 1085, 1072, 1083, 1080, 1095, 1080, 1080])
      lower_basic ascii_digits_only example_url ((), [])) = Inl ValueError"
    by (simp add: product_page_run s3 p3)
  from a b c d e show ?thesis by blast
qed

end
